theory Spec2Isabelle
  imports Complex_Main "HOL-Library.AList"
begin

section \<open>nettime: timing the phases of an HTTP request\<close>

text \<open>
  A shallow embedding of \<^verbatim>\<open>lib/nettime.js\<close> (the entry operation \<^verbatim>\<open>nettime\<close> and the
  probe \<^verbatim>\<open>makeSingleRequest\<close>) and of \<^verbatim>\<open>computeAverageTimings\<close> from the command-line
  script. Node's event loop is modelled by a script: the list of events that the
  environment delivers to the handlers of one probe, each event carrying the reading of
  \<^verbatim>\<open>process.hrtime()\<close> its handler would obtain.
\<close>

subsection \<open>Timings in the format of process.hrtime\<close>

text \<open>A timing is the array \<^verbatim>\<open>[seconds, nanoseconds]\<close>.\<close>

type_synonym hrtime = "int \<times> int"

text \<open>The property names of the \<^verbatim>\<open>timings\<close> object (\<^verbatim>\<open>NettimeTimings\<close>).\<close>

datatype phase =
  socketOpen | dnsLookup | tcpConnection | tlsHandshake | firstByte | contentTransfer
  | socketClose

text \<open>
  A JavaScript object keeps its properties in insertion order and an assignment to an
  existing property keeps the property's position: an association list written with
  \<^const>\<open>AList.update\<close>.
\<close>

type_synonym timings = "(phase \<times> hrtime) list"

definition valid_hrtime :: "hrtime \<Rightarrow> bool" where
  "valid_hrtime t \<longleftrightarrow> 0 \<le> fst t \<and> 0 \<le> snd t \<and> snd t < 1000000000"

text \<open>The monotonic order of two timings: by seconds, then by nanoseconds.\<close>

definition hrtime_le :: "hrtime \<Rightarrow> hrtime \<Rightarrow> bool" where
  "hrtime_le a b \<longleftrightarrow> fst a < fst b \<or> (fst a = fst b \<and> snd a \<le> snd b)"

text \<open>Seconds and nanoseconds combined into nanoseconds, and split back.\<close>

definition toNanoseconds :: "hrtime \<Rightarrow> int" where
  "toNanoseconds t = fst t * 1000000000 + snd t"

definition fromNanoseconds :: "int \<Rightarrow> hrtime" where
  "fromNanoseconds n = (n div 1000000000, n mod 1000000000)"

text \<open>
  Modelled from the spec: \<^verbatim>\<open>getDuration\<close> of \<^verbatim>\<open>lib/timings.js\<close>, which
  \<^verbatim>\<open>lib/nettime.js\<close> requires and which is not among the sources. The spec (4.1):
  ``returns end - start as a Timestamp-shaped duration (seconds, nanoseconds), where
  subtraction is performed with nanosecond borrow/carry (if end.nanos < start.nanos,
  borrow one second)''.
\<close>

definition getDuration :: "hrtime \<Rightarrow> hrtime \<Rightarrow> hrtime" where
  "getDuration start end' =
     (let seconds = fst end' - fst start;
          nanoseconds = snd end' - snd start
      in if snd end' < snd start then (seconds - 1, nanoseconds + 1000000000)
         else (seconds, nanoseconds))"

text \<open>
  Modelled from the spec: \<^verbatim>\<open>getMilliseconds\<close> of \<^verbatim>\<open>lib/timings.js\<close>, not among the
  sources. The spec (4.1): ``duration.seconds * 1000 + round(duration.nanos / 1e6),
  returned as an integer (round-half-up)''. \<^const>\<open>round\<close> is \<open>\<lambda>x. \<lfloor>x + 1/2\<rfloor>\<close>, which
  rounds a half up. The quotient is taken in the rationals.
\<close>

definition getMilliseconds :: "hrtime \<Rightarrow> int" where
  "getMilliseconds d = fst d * 1000 + round ((of_int (snd d) :: rat) / 1000000)"

text \<open>
  Modelled from the spec: three parts of \<^verbatim>\<open>computeAverageDurations\<close> (below). The
  durations that the runs hold for one phase, the runs lacking the phase left out.
\<close>

definition durationsOf :: "phase \<Rightarrow> timings list \<Rightarrow> hrtime list" where
  "durationsOf p multipleTimings = List.map_filter (\<lambda>run. map_of run p) multipleTimings"

text \<open>The phase names observed in any run, in the order of their first occurrence.\<close>

definition phaseNames :: "timings list \<Rightarrow> phase list" where
  "phaseNames multipleTimings = rev (remdups (rev (concat (map (map fst) multipleTimings))))"

text \<open>
  The mean in nanoseconds, rounded down, split back into seconds and nanoseconds. It is
  only taken of the durations of a phase that some run holds, so of a list that is not
  empty.
\<close>

definition meanDuration :: "hrtime list \<Rightarrow> hrtime" where
  "meanDuration ds = fromNanoseconds (sum_list (map toNanoseconds ds) div int (length ds))"

text \<open>
  Modelled from the spec: \<^verbatim>\<open>computeAverageDurations\<close> of \<^verbatim>\<open>lib/timings.js\<close>, not among
  the sources. The spec (4.1): ``for each phase name observed in ANY run, computes the
  arithmetic mean over the runs where that phase is present (seconds and nanoseconds
  combined into a single nanosecond-precision mean, then split back into
  seconds+nanoseconds), rounding down to integer nanoseconds. Phases absent in a run are
  excluded from that phase's average, not treated as zero.''
\<close>

definition computeAverageDurations :: "timings list \<Rightarrow> timings" where
  "computeAverageDurations multipleTimings =
     map (\<lambda>p. (p, meanDuration (durationsOf p multipleTimings))) (phaseNames multipleTimings)"

text \<open>
  Modelled from the spec: \<^verbatim>\<open>createTimingsFromDurations\<close> of \<^verbatim>\<open>lib/timings.js\<close>, not
  among the sources. The spec (4.1): ``returns absolute Timestamps by adding each duration
  to base'', the base being \<open>(0, 0)\<close> when none is given.
\<close>

definition addDuration :: "hrtime \<Rightarrow> hrtime \<Rightarrow> hrtime" where
  "addDuration base d = fromNanoseconds (toNanoseconds base + toNanoseconds d)"

definition createTimingsFromDurations :: "timings \<Rightarrow> hrtime \<Rightarrow> timings" where
  "createTimingsFromDurations durations startTime =
     map (\<lambda>(p, d). (p, addDuration startTime d)) durations"

subsection \<open>JavaScript values\<close>

text \<open>A header value or status code: a number or a string; \<open>None\<close> stands for \<^verbatim>\<open>undefined\<close>.\<close>

datatype jsval = Num int | Str string

type_synonym headers = "(string \<times> jsval) list"

datatype error =
  Error (message: string) (code: "string option")
  | TypeError (message: string)

function decimal :: "nat \<Rightarrow> string" where
  "decimal n =
     (if n < 10 then [''0123456789'' ! n]
      else decimal (n div 10) @ [''0123456789'' ! (n mod 10)])"
  by pat_completeness auto
termination
  by (relation "measure id") auto

declare decimal.simps [simp del]

text \<open>The string that a template literal or a concatenation makes of a value.\<close>

definition toString :: "jsval option \<Rightarrow> string" where
  "toString v =
     (case v of
        None \<Rightarrow> ''undefined''
      | Some (Num i) \<Rightarrow> (if i < 0 then CHR ''-'' # decimal (nat (- i)) else decimal (nat i))
      | Some (Str s) \<Rightarrow> s)"


definition toString_string :: "string option \<Rightarrow> string" where
  "toString_string v = (case v of None \<Rightarrow> ''undefined'' | Some s \<Rightarrow> s)"

text \<open>Truthiness of a string, of a number and of a header value.\<close>

definition truthy_string :: "string option \<Rightarrow> bool" where
  "truthy_string v \<longleftrightarrow> (case v of None \<Rightarrow> False | Some s \<Rightarrow> s \<noteq> [])"

definition truthy_number :: "int option \<Rightarrow> bool" where
  "truthy_number v \<longleftrightarrow> (case v of None \<Rightarrow> False | Some n \<Rightarrow> n \<noteq> 0)"

definition truthy :: "jsval option \<Rightarrow> bool" where
  "truthy v \<longleftrightarrow>
     (case v of None \<Rightarrow> False | Some (Num n) \<Rightarrow> n \<noteq> 0 | Some (Str s) \<Rightarrow> s \<noteq> [])"

text \<open>\<^verbatim>\<open>Array.prototype.join\<close> on strings.\<close>

fun join :: "string \<Rightarrow> string list \<Rightarrow> string" where
  "join sep [] = []"
| "join sep [x] = x"
| "join sep (x # y # ys) = x @ sep @ join sep (y # ys)"

subsection \<open>Options, responses and results\<close>

record NettimeRequestCredentials =
  username :: string
  password :: string

text \<open>
  \<^verbatim>\<open>NettimeOptions\<close>. An optional property is an \<open>option\<close>; the three flags of which
  the code only tests the truthiness are booleans. The request body \<^verbatim>\<open>data\<close> is a string.
  The HTTP verb is the field \<open>method_opt\<close>.
\<close>

record options =
  url :: string
  credentials :: "NettimeRequestCredentials option"
  method_opt :: "string option"
  headers :: "headers option"
  timeout :: "int option"
  rejectUnauthorized :: "bool option"
  requestCount :: "int option"
  requestDelay :: "int option"
  outputFile :: "string option"
  returnResponse :: bool
  includeHeaders :: bool
  appendToOutput :: bool
  failOnOutputFileError :: "bool option"
  httpVersion :: "string option"
  data :: "string option"

text \<open>The entry operation takes the options object or a string with the URL.\<close>

datatype descriptor = UrlString string | Options options

text \<open>
  A string has none of the properties that \<^verbatim>\<open>nettime\<close> and \<^verbatim>\<open>makeSingleRequest\<close> read
  before \<^verbatim>\<open>getParameters\<close> replaces it by \<^verbatim>\<open>{ url }\<close>, so it behaves as that object.
\<close>

definition optionsOf :: "descriptor \<Rightarrow> options" where
  "optionsOf d =
     (case d of
        Options opts \<Rightarrow> opts
      | UrlString u \<Rightarrow>
          \<lparr>url = u, credentials = None, method_opt = None, headers = None, timeout = None,
           rejectUnauthorized = None, requestCount = None, requestDelay = None,
           outputFile = None, returnResponse = False, includeHeaders = False,
           appendToOutput = False, failOnOutputFileError = None, httpVersion = None,
           data = None\<rparr>)"

text \<open>The properties that \<^verbatim>\<open>parseURL\<close> reads from a \<^verbatim>\<open>URL\<close> object.\<close>

record url_parts =
  protocol :: string
  url_username :: string
  url_password :: string
  host :: string
  hostname :: string
  port :: string
  pathname :: string
  search :: string

text \<open>
  The object that \<^verbatim>\<open>getParameters\<close> returns. Its \<^verbatim>\<open>headers\<close> are the object
  \<^verbatim>\<open>options.headers\<close> when the caller gave one.
\<close>

record parameters = url_parts +
  auth :: "string option"
  path :: "string option"
  headers_p :: headers
  method_p :: string
  agent :: bool
  rejectUnauthorized_p :: "bool option"

text \<open>
  The variable \<^verbatim>\<open>response\<close>: the \<^verbatim>\<open>IncomingMessage\<close> of an HTTP/1 request, or the object
  that the \<^verbatim>\<open>response\<close> handler of an HTTP/2 request builds.
\<close>

record response =
  headers_r :: headers
  httpVersion_r :: "string option"
  statusCode_r :: "jsval option"
  statusMessage_r :: "string option"

text \<open>
  \<^verbatim>\<open>NettimeResponse\<close>; \<open>None\<close> is a property that \<^verbatim>\<open>returnResult\<close> did not set. The
  field \<open>timings\<close> is the content of the timings object when the promise is resolved.
\<close>

record result =
  timings :: timings
  httpVersion_o :: "string option"
  statusCode_o :: "jsval option"
  statusMessage_o :: "string option"
  headers_o :: "headers option"
  response_o :: "string option"

datatype 'a promise = Pending | Resolved 'a | Rejected error

subsection \<open>The environment\<close>

text \<open>
  What the code takes from Node: the URL parser (\<open>Inl\<close> is the error that
  \<^verbatim>\<open>new URL\<close> throws), the table \<^verbatim>\<open>http.STATUS_CODES\<close> by property key, the base64
  encoding of a string and \<^verbatim>\<open>os.EOL\<close>.
\<close>

record node =
  URL :: "string \<Rightarrow> error + url_parts"
  STATUS_CODES :: "string \<Rightarrow> string option"
  base64 :: "string \<Rightarrow> string"
  EOL :: string

text \<open>
  What a probe does to the world, in the order in which it does it:
  \<^item> \<open>Connect origin rejectUnauthorized\<close>: \<^verbatim>\<open>http2.connect\<close>;
  \<^item> \<open>Request2 headers\<close>: \<^verbatim>\<open>client.request(headers)\<close>;
  \<^item> \<open>Request1 secure parameters http10\<close>: \<^verbatim>\<open>request(parameters, callback)\<close> of the
    module \<^verbatim>\<open>https\<close> (\<open>secure\<close>) or \<^verbatim>\<open>http\<close>, with the request line forced to HTTP/1.0
    when \<open>http10\<close> holds;
  \<^item> \<open>SetTimeout\<close>, \<open>RequestWrite\<close>, \<open>RequestEnd\<close>, \<open>RequestAbort\<close>: the calls of
    \<^verbatim>\<open>setTimeout\<close>, \<^verbatim>\<open>write\<close>, \<^verbatim>\<open>end\<close> and \<^verbatim>\<open>abort\<close> on the request;
  \<^item> \<open>ClientClose\<close>: \<^verbatim>\<open>client.close(checkSocketClosed)\<close>;
  \<^item> \<open>WriteFile file data flag\<close>: \<^verbatim>\<open>writeFile(outputFile, data, { flag }, ...)\<close>;
  \<^item> \<open>ConsoleError\<close> and \<open>ExitCode\<close>: \<^verbatim>\<open>console.error\<close> and the assignment to
    \<^verbatim>\<open>process.exitCode\<close>.
\<close>

datatype effect =
  Connect string "bool option"
  | Request2 headers
  | Request1 bool parameters bool
  | SetTimeout int
  | RequestWrite string
  | RequestEnd
  | RequestAbort
  | ClientClose
  | WriteFile string string string
  | ConsoleError string
  | ExitCode int

text \<open>
  The events that reach the handlers of a probe. An event whose handler may call
  \<^verbatim>\<open>getTiming\<close> carries the reading of \<^verbatim>\<open>process.hrtime()\<close> at that moment.
  \<^item> \<open>ev_socket\<close>: \<^verbatim>\<open>socket\<close> on an HTTP/1 request;
  \<^item> \<open>ev_lookup\<close>, \<open>ev_connect\<close>, \<open>ev_secureConnect\<close>, \<open>ev_close\<close>: \<^verbatim>\<open>lookup\<close>,
    \<^verbatim>\<open>connect\<close>, \<^verbatim>\<open>secureConnect\<close> and \<^verbatim>\<open>close\<close> on the socket;
  \<^item> \<open>ev_session_close\<close>: the callback given to \<^verbatim>\<open>client.close\<close>;
  \<^item> \<open>ev_response1\<close>: the callback of an HTTP/1 request, with the message of the server;
    \<open>ev_response2\<close>: \<^verbatim>\<open>response\<close> on an HTTP/2 request, with the headers;
  \<^item> \<open>ev_readable\<close>: \<^verbatim>\<open>readable\<close>, with what \<^verbatim>\<open>response.read()\<close> returns (\<open>None\<close> is
    \<^verbatim>\<open>null\<close>); \<open>ev_end\<close>: \<^verbatim>\<open>end\<close> of the response;
  \<^item> \<open>ev_error\<close>: \<^verbatim>\<open>error\<close> on the request or the client; \<open>ev_timeout\<close> and
    \<open>ev_abort\<close>: \<^verbatim>\<open>timeout\<close> and \<^verbatim>\<open>abort\<close> on the request.

  The two close events carry the error, if any, with which \<^verbatim>\<open>writeFile\<close> calls back
  when the handler writes the output file: the write and its callback are taken as one
  step.
\<close>

datatype event =
  ev_socket hrtime
  | ev_lookup hrtime
  | ev_connect hrtime
  | ev_secureConnect hrtime
  | ev_close hrtime "error option"
  | ev_session_close hrtime "error option"
  | ev_response1 response
  | ev_response2 headers
  | ev_readable hrtime "string option"
  | ev_end hrtime
  | ev_error error
  | ev_timeout
  | ev_abort

datatype transport = HTTP1 | HTTP2

text \<open>
  The variables of one call of \<^verbatim>\<open>makeSingleRequest\<close>, the listeners that are attached
  (\<open>request\<close> is \<open>None\<close> as long as no request object exists), the state of the returned
  promise and the effects so far.
\<close>

record probe =
  options_v :: options
  request :: "transport option"
  start :: hrtime
  timings_v :: timings
  data_v :: "string option"
  response_v :: "response option"
  firstByte_v :: bool
  socketClosed_v :: bool
  timeoutHandler_v :: bool
  socket_listeners :: bool
  response_listeners :: bool
  close_callback :: bool
  promise :: "result promise"
  effects :: "effect list"


subsection \<open>getParameters\<close>

definition parseURL :: "options \<Rightarrow> headers \<Rightarrow> url_parts \<Rightarrow> parameters" where
  "parseURL opts hdrs u =
     url_parts.extend u
       \<lparr>auth =
          (if url_username u \<noteq> []
           then (if url_password u \<noteq> [] then Some (url_username u @ ''.'' @ url_password u)
                 else Some (url_username u))
           else None),
        path = (if pathname u \<noteq> [] then Some (pathname u @ search u) else None),
        headers_p = hdrs,
        method_p =
          (if truthy_string (method_opt opts) then toString_string (method_opt opts)
           else if truthy_string (data opts) then ''POST'' else ''GET''),
        agent = False,
        rejectUnauthorized_p = None\<rparr>"

definition setSecurity :: "options \<Rightarrow> parameters \<Rightarrow> parameters" where
  "setSecurity opts params =
     (if rejectUnauthorized opts \<noteq> None
      then params\<lparr>rejectUnauthorized_p := rejectUnauthorized opts\<rparr>
      else params)"

definition setCredentials :: "node \<Rightarrow> options \<Rightarrow> headers \<Rightarrow> headers" where
  "setCredentials nd opts hdrs =
     (case credentials opts of
        None \<Rightarrow> hdrs
      | Some c \<Rightarrow>
          AList.update ''authorization''
            (Str (''Basic '' @ base64 nd (username c @ '':'' @ password c))) hdrs)"

definition setContentType :: "options \<Rightarrow> headers \<Rightarrow> headers" where
  "setContentType opts hdrs =
     (case data opts of
        None \<Rightarrow> hdrs
      | Some d \<Rightarrow>
          if d = [] then hdrs
          else AList.update ''content-length'' (Num (int (length d)))
                 (if \<not> truthy (map_of hdrs ''content-type'')
                  then AList.update ''content-type'' (Str ''application/x-www-form-urlencoded'') hdrs
                  else hdrs))"

text \<open>
  \<^verbatim>\<open>getParameters\<close>: the parameters, or the error of \<^verbatim>\<open>new URL\<close>. The headers are one
  object, shared by the parameters and, when the caller gave it, by the options:
  \<^verbatim>\<open>setCredentials\<close> and \<^verbatim>\<open>setContentType\<close> write to it after \<^verbatim>\<open>parseURL\<close> has stored it.
\<close>

definition getParameters :: "node \<Rightarrow> options \<Rightarrow> error + parameters" where
  "getParameters nd opts =
     (case URL nd (url opts) of
        Inl e \<Rightarrow> Inl e
      | Inr u \<Rightarrow>
          Inr ((setSecurity opts (parseURL opts [] u))
                \<lparr>headers_p :=
                   setContentType opts
                     (setCredentials nd opts
                        (case headers opts of None \<Rightarrow> [] | Some h \<Rightarrow> h))\<rparr>))"

text \<open>A write to the shared headers object shows in \<^verbatim>\<open>options.headers\<close> when that exists.\<close>

definition shareHeaders :: "headers \<Rightarrow> options \<Rightarrow> options" where
  "shareHeaders hdrs opts =
     (case headers opts of None \<Rightarrow> opts | Some _ \<Rightarrow> opts\<lparr>headers := Some hdrs\<rparr>)"

subsection \<open>The handlers of makeSingleRequest\<close>

definition getTiming :: "probe \<Rightarrow> hrtime \<Rightarrow> hrtime" where
  "getTiming p now = getDuration (start p) now"

definition record_timing :: "phase \<Rightarrow> hrtime \<Rightarrow> probe \<Rightarrow> probe" where
  "record_timing ph now p = p\<lparr>timings_v := AList.update ph (getTiming p now) (timings_v p)\<rparr>"

text \<open>A promise settles once: a later \<^verbatim>\<open>resolve\<close> or \<^verbatim>\<open>reject\<close> does nothing.\<close>

definition resolve :: "result \<Rightarrow> probe \<Rightarrow> probe" where
  "resolve r p = (if promise p = Pending then p\<lparr>promise := Resolved r\<rparr> else p)"

definition reject :: "error \<Rightarrow> probe \<Rightarrow> probe" where
  "reject e p = (if promise p = Pending then p\<lparr>promise := Rejected e\<rparr> else p)"

definition perform :: "effect \<Rightarrow> probe \<Rightarrow> probe" where
  "perform x p = p\<lparr>effects := effects p @ [x]\<rparr>"

definition returnResult :: "probe \<Rightarrow> probe" where
  "returnResult p =
     resolve
       \<lparr>timings = timings_v p,
        httpVersion_o = (case response_v p of None \<Rightarrow> None | Some r \<Rightarrow> httpVersion_r r),
        statusCode_o = (case response_v p of None \<Rightarrow> None | Some r \<Rightarrow> statusCode_r r),
        statusMessage_o = (case response_v p of None \<Rightarrow> None | Some r \<Rightarrow> statusMessage_r r),
        headers_o =
          (case response_v p of
             None \<Rightarrow> None
           | Some r \<Rightarrow> if includeHeaders (options_v p) then Some (headers_r r) else None),
        response_o = (if returnResponse (options_v p) then data_v p else None)\<rparr>
       p"

definition prependOutputHeader :: "node \<Rightarrow> response \<Rightarrow> string \<Rightarrow> string" where
  "prependOutputHeader nd r d =
     join (EOL nd)
       ([''HTTP/'' @ toString_string (httpVersion_r r) @ '' '' @ toString (statusCode_r r)
           @ '' '' @ toString_string (statusMessage_r r)]
        @ map (\<lambda>(key, v). key @ '': '' @ toString (Some v)) (headers_r r)
        @ [EOL nd])
     @ d"

text \<open>
  \<^verbatim>\<open>writeOutputFile\<close>, called with a truthy \<^verbatim>\<open>outputFile\<close> and \<^verbatim>\<open>data\<close>, followed by
  \<^verbatim>\<open>returnResult\<close> when its promise resolves; \<open>werr\<close> is the error of the callback.
\<close>

definition writeOutputFile :: "node \<Rightarrow> string \<Rightarrow> string \<Rightarrow> error option \<Rightarrow> probe \<Rightarrow> probe" where
  "writeOutputFile nd file d werr p =
     (let d' = (case response_v p of
                  None \<Rightarrow> d
                | Some r \<Rightarrow> if includeHeaders (options_v p) then prependOutputHeader nd r d else d);
          flag = (if appendToOutput (options_v p) then ''a'' else ''w'');
          p' = perform (WriteFile file d' flag) (p\<lparr>data_v := Some d'\<rparr>)
      in case werr of
           None \<Rightarrow> returnResult p'
         | Some e \<Rightarrow>
             if failOnOutputFileError (options_v p) = Some False
             then returnResult (perform (ExitCode 2) (perform (ConsoleError (message e)) p'))
             else reject e p')"

definition checkFirstByte :: "hrtime \<Rightarrow> probe \<Rightarrow> probe" where
  "checkFirstByte now p =
     (if \<not> firstByte_v p then (record_timing firstByte now p)\<lparr>firstByte_v := True\<rparr> else p)"

definition checkSocketClosed :: "node \<Rightarrow> hrtime \<Rightarrow> error option \<Rightarrow> probe \<Rightarrow> probe" where
  "checkSocketClosed nd now werr p =
     (if \<not> socketClosed_v p
      then let p' = record_timing socketClose now p
           in (case (outputFile (options_v p), data_v p') of
                 (Some file, Some d) \<Rightarrow>
                   if file \<noteq> [] then writeOutputFile nd file d werr p' else returnResult p'
               | _ \<Rightarrow> returnResult p')
      else p)"

definition listenToSocket :: "hrtime \<Rightarrow> probe \<Rightarrow> probe" where
  "listenToSocket now p = (record_timing socketOpen now p)\<lparr>socket_listeners := True\<rparr>"

definition listenToResponse :: "probe \<Rightarrow> probe" where
  "listenToResponse p = p\<lparr>response_listeners := True\<rparr>"

text \<open>One event: the handlers that are attached at that moment run, the others do not exist.\<close>

fun handle :: "node \<Rightarrow> probe \<Rightarrow> event \<Rightarrow> probe" where
  "handle nd p (ev_socket now) =
     (if request p = Some HTTP1 then listenToSocket now p else p)"
| "handle nd p (ev_lookup now) =
     (if socket_listeners p then record_timing dnsLookup now p else p)"
| "handle nd p (ev_connect now) =
     (if socket_listeners p then record_timing tcpConnection now p else p)"
| "handle nd p (ev_secureConnect now) =
     (if socket_listeners p then record_timing tlsHandshake now p else p)"
| "handle nd p (ev_close now werr) =
     (if socket_listeners p then checkSocketClosed nd now werr p else p)"
| "handle nd p (ev_session_close now werr) =
     (if close_callback p then checkSocketClosed nd now werr p else p)"
| "handle nd p (ev_response1 localResponse) =
     (if request p = Some HTTP1
      then listenToResponse (p\<lparr>response_v := Some localResponse\<rparr>)
      else p)"
| "handle nd p (ev_response2 hdrs) =
     (if request p = Some HTTP2
      then let statusCode = map_of hdrs '':status'';
               statusMessage = STATUS_CODES nd (toString statusCode)
           in p\<lparr>response_v :=
                  Some \<lparr>headers_r = hdrs, httpVersion_r = httpVersion (options_v p),
                        statusCode_r = statusCode, statusMessage_r = statusMessage\<rparr>\<rparr>
      else p)"
| "handle nd p (ev_readable now chunk) =
     (if response_listeners p
      then let p' = checkFirstByte now p
           in (case (data_v p', chunk) of
                 (Some d, Some c) \<Rightarrow> p'\<lparr>data_v := Some (d @ c)\<rparr>
               | _ \<Rightarrow> p')
      else p)"
| "handle nd p (ev_end now) =
     (if response_listeners p
      then let p' = record_timing contentTransfer now p
           in if request p = Some HTTP2
              then (perform ClientClose p')\<lparr>close_callback := True\<rparr>
              else p'
      else p)"
| "handle nd p (ev_error e) = (if request p \<noteq> None then reject e p else p)"
| "handle nd p ev_timeout =
     (if request p \<noteq> None \<and> truthy_number (timeout (options_v p))
      then reject (Error ''Connection timed out.'' (Some ''ETIMEDOUT'')) (perform RequestAbort p)
      else p)"
| "handle nd p ev_abort =
     (if request p \<noteq> None \<and> truthy_number (timeout (options_v p)) \<and> timeoutHandler_v p
      then reject (Error ''Connection timed out.'' (Some ''ETIMEDOUT'')) p
      else p)"


subsection \<open>makeSingleRequest\<close>

text \<open>The variables when the executor of the promise starts; \<^verbatim>\<open>start\<close> is not yet set.\<close>

definition initial :: "options \<Rightarrow> probe" where
  "initial opts =
     \<lparr>options_v = opts, request = None, start = (0, 0), timings_v = [],
      data_v = (if truthy_string (outputFile opts) \<or> returnResponse opts then Some [] else None),
      response_v = None, firstByte_v = False, socketClosed_v = False,
      timeoutHandler_v = False, socket_listeners = False, response_listeners = False,
      close_callback = False, promise = Pending, effects = []\<rparr>"

definition getOrigin :: "parameters \<Rightarrow> string" where
  "getOrigin params =
     protocol params @ ''//'' @ hostname params
     @ (if port params \<noteq> [] then '':'' @ port params else [])"

text \<open>\<open>now\<close> is the clock when \<^verbatim>\<open>listenToSocket\<close> runs on the socket of the new client.\<close>

definition makeHTTP2Request :: "parameters \<Rightarrow> hrtime \<Rightarrow> probe \<Rightarrow> probe" where
  "makeHTTP2Request params now p =
     (let p1 = perform (Connect (getOrigin params) (rejectUnauthorized_p params))
                 (p\<lparr>request := Some HTTP2\<rparr>);
          p2 = listenToSocket now p1;
          hdrs = AList.update '':path'' (Str (pathname params))
                   (AList.update '':method'' (Str (method_p params)) (headers_p params));
          p3 = perform (Request2 hdrs) (p2\<lparr>options_v := shareHeaders hdrs (options_v p2)\<rparr>)
      in listenToResponse p3)"

definition makeHTTP1Request :: "parameters \<Rightarrow> probe \<Rightarrow> probe" where
  "makeHTTP1Request params p =
     perform
       (Request1 (protocol params \<noteq> ''http:'') params
          (httpVersion (options_v p) = Some ''1.0''))
       (p\<lparr>request := Some HTTP1\<rparr>)"

text \<open>
  The executor of the promise up to \<^verbatim>\<open>request.end()\<close>. An exception in it rejects the
  promise. \<open>t0\<close> is the clock read into \<^verbatim>\<open>start\<close>.
\<close>

definition executor :: "node \<Rightarrow> options \<Rightarrow> hrtime \<Rightarrow> hrtime \<Rightarrow> probe" where
  "executor nd opts t0 t1 =
     (case getParameters nd opts of
        Inl e \<Rightarrow> reject e (initial opts)
      | Inr params \<Rightarrow>
          let p = (initial opts)\<lparr>options_v := shareHeaders (headers_p params) opts\<rparr>
          in if httpVersion opts = Some ''2.0'' \<and> protocol params \<noteq> ''https:''
             then reject
                    (Error ''HTTP/2 supports only the \"https:\" protocol.''
                       (Some ''ERR_INSECURE_SCHEME''))
                    p
             else
               let p1 = p\<lparr>start := t0\<rparr>;
                   p2 = (if httpVersion opts = Some ''2.0'' then makeHTTP2Request params t1 p1
                         else makeHTTP1Request params p1);
                   p3 = (case timeout opts of
                           None \<Rightarrow> p2
                         | Some ms \<Rightarrow> if ms \<noteq> 0 then perform (SetTimeout ms) p2 else p2);
                   p4 = (case data opts of
                           None \<Rightarrow> p3
                         | Some inputData \<Rightarrow>
                             if inputData \<noteq> [] then perform (RequestWrite inputData) p3 else p3)
               in perform RequestEnd p4)"

text \<open>
  The events are handled until the promise settles: that is the state which the caller
  awaiting the promise resumes with. Handlers that run after the settlement (a second
  close signal over HTTP/2, say) are not part of it; \<open>foldl (handle nd) p es\<close> is the
  state after all the events \<open>es\<close>, settled or not. As the write of the output file and
  its callback are one step here, a second close signal that in Node arrives between the
  two counts as arriving after the settlement.
\<close>

fun deliver :: "node \<Rightarrow> probe \<Rightarrow> event list \<Rightarrow> probe" where
  "deliver nd p [] = p"
| "deliver nd p (e # es) = (if promise p \<noteq> Pending then p else deliver nd (handle nd p e) es)"

text \<open>
  What the world gives one probe: the clock when \<^verbatim>\<open>start\<close> is read, the clock when an
  HTTP/2 client is connected, and the events.
\<close>

record probe_env =
  hrtime_start :: hrtime
  hrtime_socket :: hrtime
  events :: "event list"

definition makeSingleRequest :: "node \<Rightarrow> options \<Rightarrow> probe_env \<Rightarrow> probe" where
  "makeSingleRequest nd opts env =
     deliver nd (executor nd opts (hrtime_start env) (hrtime_socket env)) (events env)"

subsection \<open>nettime\<close>

datatype returned = Single result | Many "result list"

text \<open>A call of \<^verbatim>\<open>makeSingleRequest\<close> with the effects of the probe, or a call of \<^verbatim>\<open>wait\<close>.\<close>

datatype action = Probe "effect list" | Wait int

record run =
  returned :: "returned promise"
  options_after :: options
  trace :: "action list"

text \<open>
  The loop of \<^verbatim>\<open>nettime\<close> from index \<open>i\<close> on; \<open>net i\<close> is what the world gives the probe
  of index \<open>i\<close>. A probe that rejects rejects the run; one that never settles leaves the
  run pending.
\<close>

function nettime_loop ::
  "node \<Rightarrow> (nat \<Rightarrow> probe_env) \<Rightarrow> int \<Rightarrow> int option \<Rightarrow> nat \<Rightarrow> options \<Rightarrow> result list
   \<Rightarrow> action list \<Rightarrow> run" where
  "nettime_loop nd net count delay i opts results tr =
     (if int i < count
      then let p = makeSingleRequest nd opts (net i);
               tr' = tr @ [Probe (effects p)]
           in (case promise p of
                 Pending \<Rightarrow> \<lparr>returned = Pending, options_after = options_v p, trace = tr'\<rparr>
               | Rejected e \<Rightarrow>
                   \<lparr>returned = Rejected e, options_after = options_v p, trace = tr'\<rparr>
               | Resolved r \<Rightarrow>
                   nettime_loop nd net count delay (Suc i)
                     ((options_v p)\<lparr>appendToOutput := True\<rparr>)
                     (results @ [r])
                     (tr' @ (case delay of
                               None \<Rightarrow> []
                             | Some ms \<Rightarrow> if ms \<noteq> 0 then [Wait ms] else [])))
      else \<lparr>returned = Resolved (Many results), options_after = opts, trace = tr\<rparr>)"
  by pat_completeness auto
termination
  by (relation "measure (\<lambda>(nd, net, count, delay, i, opts, results, tr). nat (count - int i))")
    auto

declare nettime_loop.simps [simp del]

definition nettime_single :: "node \<Rightarrow> options \<Rightarrow> (nat \<Rightarrow> probe_env) \<Rightarrow> run" where
  "nettime_single nd opts net =
     (let p = makeSingleRequest nd opts (net 0)
      in \<lparr>returned =
            (case promise p of
               Pending \<Rightarrow> Pending
             | Rejected e \<Rightarrow> Rejected e
             | Resolved r \<Rightarrow> Resolved (Single r)),
          options_after = options_v p,
          trace = [Probe (effects p)]\<rparr>)"

text \<open>
  \<^verbatim>\<open>nettime\<close>. \<open>options_after\<close> is the options object when the returned promise settles
  (for a string, the object that \<^verbatim>\<open>getParameters\<close> made of it).
\<close>

definition nettime :: "node \<Rightarrow> descriptor \<Rightarrow> (nat \<Rightarrow> probe_env) \<Rightarrow> run" where
  "nettime nd d net =
     (let opts = optionsOf d
      in case requestCount opts of
           None \<Rightarrow> nettime_single nd opts net
         | Some count \<Rightarrow>
             if 1 < count
             then nettime_loop nd net count (requestDelay opts) 0 opts [] []
             else nettime_single nd opts net)"

subsection \<open>computeAverageTimings of the command-line script\<close>

text \<open>The template literal of the error message in \<^verbatim>\<open>checkStatusCodes\<close>.\<close>

definition statusCodeMessage :: "jsval option \<Rightarrow> jsval option \<Rightarrow> string" where
  "statusCodeMessage firstStatusCode statusCode =
     ''Status code of the first request was '' @ toString firstStatusCode @ '', but ''
     @ toString statusCode @ '' was received later.''"

text \<open>The loop of \<^verbatim>\<open>checkStatusCodes\<close>: the error it throws, if any.\<close>

fun checkStatusCodes :: "jsval option \<Rightarrow> result list \<Rightarrow> error option" where
  "checkStatusCodes firstStatusCode [] = None"
| "checkStatusCodes firstStatusCode (r # rs) =
     (if firstStatusCode = None then checkStatusCodes (statusCode_o r) rs
      else if firstStatusCode \<noteq> statusCode_o r
      then Some (Error (statusCodeMessage firstStatusCode (statusCode_o r)) None)
      else checkStatusCodes firstStatusCode rs)"

definition createAverageResult :: "result \<Rightarrow> timings \<Rightarrow> result" where
  "createAverageResult firstResult averageDurations =
     \<lparr>timings = createTimingsFromDurations averageDurations (0, 0),
      httpVersion_o = httpVersion_o firstResult,
      statusCode_o = statusCode_o firstResult,
      statusMessage_o = statusMessage_o firstResult,
      headers_o = None,
      response_o = None\<rparr>"

text \<open>
  \<^verbatim>\<open>computeAverageTimings\<close>. With no result, \<^verbatim>\<open>results[0]\<close> is undefined and the
  destructuring in \<^verbatim>\<open>createAverageResult\<close> throws a \<^verbatim>\<open>TypeError\<close>.
\<close>

definition computeAverageTimings :: "result list \<Rightarrow> error + result" where
  "computeAverageTimings results =
     (case checkStatusCodes None results of
        Some e \<Rightarrow> Inl e
      | None \<Rightarrow>
          (case results of
             [] \<Rightarrow> Inl (TypeError ''Cannot destructure property 'httpVersion' of 'firstResult' as it is undefined.'')
           | firstResult # _ \<Rightarrow>
               Inr (createAverageResult firstResult
                      (computeAverageDurations (map timings results)))))"


subsection \<open>Notions used to state the properties\<close>

text \<open>The phase that the handler of an event writes, if it writes one.\<close>

fun signal :: "event \<Rightarrow> phase option" where
  "signal (ev_socket now) = Some socketOpen"
| "signal (ev_lookup now) = Some dnsLookup"
| "signal (ev_connect now) = Some tcpConnection"
| "signal (ev_secureConnect now) = Some tlsHandshake"
| "signal (ev_readable now chunk) = Some firstByte"
| "signal (ev_end now) = Some contentTransfer"
| "signal (ev_close now werr) = Some socketClose"
| "signal (ev_session_close now werr) = Some socketClose"
| "signal (ev_response1 localResponse) = None"
| "signal (ev_response2 hdrs) = None"
| "signal (ev_error e) = None"
| "signal ev_timeout = None"
| "signal ev_abort = None"

fun is_response :: "event \<Rightarrow> bool" where
  "is_response (ev_response1 localResponse) = True"
| "is_response (ev_response2 hdrs) = True"
| "is_response e = False"

text \<open>The flags of the calls of \<^verbatim>\<open>writeFile\<close> among some effects, in order.\<close>

fun write_flags :: "effect list \<Rightarrow> string list" where
  "write_flags [] = []"
| "write_flags (WriteFile file d flag # xs) = flag # write_flags xs"
| "write_flags (x # xs) = write_flags xs"

text \<open>A trace without the effects of its probes: \<open>None\<close> for a probe, the delay for a wait.\<close>

fun waits :: "action list \<Rightarrow> int option list" where
  "waits [] = []"
| "waits (Probe xs # as) = None # waits as"
| "waits (Wait ms # as) = Some ms # waits as"

text \<open>
  The options object before the probe of index \<open>i\<close> of a run in which the probes before
  it resolved, and that probe.
\<close>

fun options_at :: "node \<Rightarrow> (nat \<Rightarrow> probe_env) \<Rightarrow> options \<Rightarrow> nat \<Rightarrow> options" where
  "options_at nd net opts 0 = opts"
| "options_at nd net opts (Suc i) =
     (options_v (makeSingleRequest nd (options_at nd net opts i) (net i)))
       \<lparr>appendToOutput := True\<rparr>"

definition probe_at :: "node \<Rightarrow> (nat \<Rightarrow> probe_env) \<Rightarrow> options \<Rightarrow> nat \<Rightarrow> probe" where
  "probe_at nd net opts i = makeSingleRequest nd (options_at nd net opts i) (net i)"


subsection \<open>An example environment\<close>

definition example_url :: "string \<Rightarrow> url_parts" where
  "example_url scheme =
     \<lparr>protocol = scheme, url_username = [], url_password = [], host = ''example.com'',
      hostname = ''example.com'', port = [], pathname = ''/'', search = []\<rparr>"

text \<open>
  A URL parser that knows two URLs, a status table with two entries; the encoding of the
  credentials plays no part in the examples and is left the identity.
\<close>

definition example_node :: node where
  "example_node =
     \<lparr>URL = (\<lambda>u. if u = ''http://example.com/'' then Inr (example_url ''http:'')
                else if u = ''https://example.com/'' then Inr (example_url ''https:'')
                else Inl (TypeError ''Invalid URL'')),
      STATUS_CODES = map_of [(''200'', ''OK''), (''404'', ''Not Found'')],
      base64 = (\<lambda>s. s),
      EOL = [CHR 0x0A]\<rparr>"

definition example_options :: "string \<Rightarrow> options" where
  "example_options u = optionsOf (UrlString u)"

definition example_message :: response where
  "example_message =
     \<lparr>headers_r = [(''content-type'', Str ''text/html'')], httpVersion_r = Some ''1.1'',
      statusCode_r = Some (Num 200), statusMessage_r = Some ''OK''\<rparr>"

text \<open>The events of an HTTP/1 request that is answered, and of an HTTP/2 request.\<close>

definition example_events :: "event list" where
  "example_events =
     [ev_socket (5, 100), ev_lookup (5, 200), ev_connect (5, 300),
      ev_response1 example_message, ev_readable (5, 400) (Some ''hello''),
      ev_readable (5, 500) None, ev_end (5, 600), ev_close (5, 700) None]"

definition example_events2 :: "event list" where
  "example_events2 =
     [ev_lookup (5, 200), ev_connect (5, 300), ev_secureConnect (5, 350),
      ev_response2 [('':status'', Num 299)], ev_readable (5, 400) (Some ''hello''),
      ev_end (5, 600), ev_close (5, 700) None]"

definition example_env :: "event list \<Rightarrow> probe_env" where
  "example_env evs = \<lparr>hrtime_start = (5, 0), hrtime_socket = (5, 50), events = evs\<rparr>"

text \<open>The results of the two example probes.\<close>

definition example_result :: result where
  "example_result =
     \<lparr>timings =
        [(socketOpen, 0, 100), (dnsLookup, 0, 200), (tcpConnection, 0, 300),
         (firstByte, 0, 400), (contentTransfer, 0, 600), (socketClose, 0, 700)],
      httpVersion_o = Some ''1.1'', statusCode_o = Some (Num 200),
      statusMessage_o = Some ''OK'', headers_o = None, response_o = None\<rparr>"

definition example_result2 :: result where
  "example_result2 =
     \<lparr>timings =
        [(socketOpen, 0, 50), (dnsLookup, 0, 200), (tcpConnection, 0, 300),
         (tlsHandshake, 0, 350), (firstByte, 0, 400), (contentTransfer, 0, 600),
         (socketClose, 0, 700)],
      httpVersion_o = Some ''2.0'', statusCode_o = Some (Num 299),
      statusMessage_o = None, headers_o = None, response_o = None\<rparr>"

text \<open>An HTTP/1 probe that has received the response and no data yet.\<close>

definition example_probe :: probe where
  "example_probe =
     makeSingleRequest example_node (example_options ''http://example.com/'')
       (example_env [ev_socket (5, 100), ev_lookup (5, 200), ev_connect (5, 300),
          ev_response1 example_message])"

text \<open>Two requests, the data written to a file.\<close>

definition example_options_out :: options where
  "example_options_out =
     (example_options ''http://example.com/'')
       \<lparr>requestCount := Some 2, outputFile := Some ''out''\<rparr>"

text \<open>A result with another status code.\<close>

definition example_result404 :: result where
  "example_result404 =
     example_result\<lparr>statusCode_o := Some (Num 404), statusMessage_o := Some ''Not Found''\<rparr>"

text \<open>
  The result of a probe whose socket closes before any response has come, and a world in
  which this happens to the first probe of a run.
\<close>

definition example_result_closed :: result where
  "example_result_closed =
     \<lparr>timings = [(socketOpen, 0, 100), (socketClose, 0, 700)],
      httpVersion_o = None, statusCode_o = None, statusMessage_o = None,
      headers_o = None, response_o = None\<rparr>"

definition example_net_closed :: "nat \<Rightarrow> probe_env" where
  "example_net_closed i =
     (if i = 0 then example_env [ev_socket (5, 100), ev_close (5, 700) None]
      else example_env example_events)"

section \<open>Properties of the timing utilities\<close>

lemma getMilliseconds_div:
  "getMilliseconds (s, n) = s * 1000 + (n + 500000) div 1000000"
proof -
  have "(of_int n :: rat) / 1000000 + 1 / 2 = of_int (n + 500000) / of_int 1000000"
    by simp
  then have "\<lfloor>(of_int n :: rat) / 1000000 + 1 / 2\<rfloor> = (n + 500000) div 1000000"
    by (simp only: floor_divide_of_int_eq)
  then show ?thesis
    by (simp add: getMilliseconds_def round_def)
qed

lemma getMilliseconds_nearest:
  "of_int (getMilliseconds d) - 1 / 2 \<le> of_int (fst d) * 1000 + (of_int (snd d) :: rat) / 1000000
   \<and> of_int (fst d) * 1000 + (of_int (snd d) :: rat) / 1000000 < of_int (getMilliseconds d) + 1 / 2"
  unfolding getMilliseconds_def round_def
  by (simp; linarith)

lemma getDuration_exact:
  "toNanoseconds (getDuration a b) = toNanoseconds b - toNanoseconds a"
  by (simp add: getDuration_def toNanoseconds_def Let_def)

lemma getDuration_valid:
  assumes "valid_hrtime a" and "valid_hrtime b" and "hrtime_le a b"
  shows "valid_hrtime (getDuration a b)"
  using assms
  by (auto simp: getDuration_def valid_hrtime_def hrtime_le_def Let_def)

text \<open>
  Claim C8. For two timings \<open>a \<le> b\<close> in the format of \<^verbatim>\<open>process.hrtime\<close> (seconds and
  nanoseconds not negative, nanoseconds below \<open>10\<^sup>9\<close>), the duration from \<open>a\<close> to \<open>b\<close>,
  computed with the borrow of one second, is not negative in either component, is again in
  that format, and spans exactly the nanoseconds between \<open>a\<close> and \<open>b\<close>. The milliseconds of
  a duration are its seconds times 1000 plus its nanoseconds divided by \<open>10\<^sup>6\<close> and rounded
  to the nearest integer, a half rounded up. The duration from \<open>(0, 500000000)\<close> to
  \<open>(1, 0)\<close> is 500 milliseconds.
\<close>

theorem getDuration_getMilliseconds:
  assumes "valid_hrtime a" and "valid_hrtime b" and "hrtime_le a b"
  shows "0 \<le> fst (getDuration a b)
       \<and> 0 \<le> snd (getDuration a b)
       \<and> snd (getDuration a b) < 1000000000
       \<and> toNanoseconds (getDuration a b) = toNanoseconds b - toNanoseconds a
       \<and> getMilliseconds (getDuration a b) =
           fst (getDuration a b) * 1000
           + \<lfloor>(of_int (snd (getDuration a b)) :: rat) / 1000000 + 1 / 2\<rfloor>
       \<and> getMilliseconds (getDuration a b) =
           fst (getDuration a b) * 1000 + (snd (getDuration a b) + 500000) div 1000000
       \<and> getMilliseconds (getDuration (0, 500000000) (1, 0)) = 500"
proof -
  have v: "valid_hrtime (getDuration a b)"
    using assms by (rule getDuration_valid)
  have nonneg: "0 \<le> fst (getDuration a b)" "0 \<le> snd (getDuration a b)"
    "snd (getDuration a b) < 1000000000"
    using v by (simp_all add: valid_hrtime_def)
  have exact: "toNanoseconds (getDuration a b) = toNanoseconds b - toNanoseconds a"
    by (rule getDuration_exact)
  have half_up: "getMilliseconds (getDuration a b) =
           fst (getDuration a b) * 1000
           + \<lfloor>(of_int (snd (getDuration a b)) :: rat) / 1000000 + 1 / 2\<rfloor>"
    by (simp add: getMilliseconds_def round_def)
  have by_div: "getMilliseconds (getDuration a b) =
           fst (getDuration a b) * 1000 + (snd (getDuration a b) + 500000) div 1000000"
    using getMilliseconds_div [of "fst (getDuration a b)" "snd (getDuration a b)"] by simp
  have example: "getMilliseconds (getDuration (0, 500000000) (1, 0)) = 500"
    by (simp add: getMilliseconds_div getDuration_def)
  from nonneg exact half_up by_div example show ?thesis
    by blast
qed

theorem getDuration_getMilliseconds_witness:
  "valid_hrtime (0, 500000000) \<and> valid_hrtime (1, 0) \<and> hrtime_le (0, 500000000) (1, 0)
   \<and> getDuration (0, 500000000) (1, 0) = (0, 500000000)
   \<and> toNanoseconds (getDuration (0, 500000000) (1, 0)) = 500000000
   \<and> getMilliseconds (getDuration (0, 500000000) (1, 0)) = 0 * 1000 + (500000000 + 500000) div 1000000"
proof -
  have a: "valid_hrtime (0, 500000000)" by (simp add: valid_hrtime_def)
  have b: "valid_hrtime (1, 0)" by (simp add: valid_hrtime_def)
  have le: "hrtime_le (0, 500000000) (1, 0)" by (simp add: hrtime_le_def)
  have d: "getDuration (0, 500000000) (1, 0) = (0, 500000000)"
    by (simp add: getDuration_def)
  show ?thesis
    using a b le d getDuration_getMilliseconds [OF a b le]
    by (simp add: toNanoseconds_def)
qed

section \<open>Properties of a probe\<close>

lemmas handler_defs =
  listenToSocket_def listenToResponse_def record_timing_def checkFirstByte_def
  checkSocketClosed_def writeOutputFile_def returnResult_def resolve_def reject_def
  perform_def getTiming_def

lemma deliver_settled: "promise p \<noteq> Pending \<Longrightarrow> deliver nd p es = p"
  by (cases es) simp_all

lemma deliver_append: "deliver nd p (es1 @ es2) = deliver nd (deliver nd p es1) es2"
  by (induction es1 arbitrary: p) (simp_all add: deliver_settled)

lemma handle_options [simp]: "options_v (handle nd p e) = options_v p"
  by (cases e) (simp_all add: handler_defs Let_def split: option.splits prod.splits)

lemma handle_request [simp]: "request (handle nd p e) = request p"
  by (cases e) (simp_all add: handler_defs Let_def split: option.splits prod.splits)

lemma handle_start [simp]: "start (handle nd p e) = start p"
  by (cases e) (simp_all add: handler_defs Let_def split: option.splits prod.splits)

lemma handle_response: "\<not> is_response e \<Longrightarrow> response_v (handle nd p e) = response_v p"
  by (cases e) (simp_all add: handler_defs Let_def split: option.splits prod.splits)

lemma handle_firstByte: "firstByte_v p \<Longrightarrow> firstByte_v (handle nd p e)"
  by (cases e) (simp_all add: handler_defs Let_def split: option.splits prod.splits)

lemma handle_frame:
  "signal e \<noteq> Some ph \<Longrightarrow> map_of (timings_v (handle nd p e)) ph = map_of (timings_v p) ph"
  by (cases e) (auto simp: handler_defs Let_def update_conv' split: option.splits prod.splits)

lemma handle_firstByte_kept:
  "firstByte_v p \<Longrightarrow> map_of (timings_v (handle nd p e)) firstByte = map_of (timings_v p) firstByte"
  by (cases e) (auto simp: handler_defs Let_def update_conv' split: option.splits prod.splits)

lemma handle_resolved:
  assumes "promise p = Pending" and "promise (handle nd p e) = Resolved r"
  shows "httpVersion_o r = (case response_v p of None \<Rightarrow> None | Some x \<Rightarrow> httpVersion_r x)
       \<and> statusCode_o r = (case response_v p of None \<Rightarrow> None | Some x \<Rightarrow> statusCode_r x)
       \<and> statusMessage_o r = (case response_v p of None \<Rightarrow> None | Some x \<Rightarrow> statusMessage_r x)"
  using assms
  by (cases e) (auto simp: handler_defs Let_def split: option.splits prod.splits if_splits)


lemma deliver_request [simp]: "request (deliver nd p es) = request p"
  by (induction es arbitrary: p) simp_all

lemma deliver_options [simp]: "options_v (deliver nd p es) = options_v p"
  by (induction es arbitrary: p) simp_all

lemma deliver_resolved:
  assumes "\<forall>e\<in>set es. \<not> is_response e" and "promise p = Pending"
    and "promise (deliver nd p es) = Resolved r"
  shows "httpVersion_o r = (case response_v p of None \<Rightarrow> None | Some x \<Rightarrow> httpVersion_r x)
       \<and> statusCode_o r = (case response_v p of None \<Rightarrow> None | Some x \<Rightarrow> statusCode_r x)
       \<and> statusMessage_o r = (case response_v p of None \<Rightarrow> None | Some x \<Rightarrow> statusMessage_r x)"
  using assms
proof (induction es arbitrary: p)
  case Nil
  then show ?case by simp
next
  case (Cons e es)
  show ?case
  proof (cases "promise (handle nd p e) = Pending")
    case True
    have "promise (deliver nd (handle nd p e) es) = Resolved r"
      using Cons.prems by simp
    moreover have "\<forall>e\<in>set es. \<not> is_response e" "\<not> is_response e"
      using Cons.prems by simp_all
    ultimately show ?thesis
      using Cons.IH [OF _ True] handle_response [of e nd p] by simp
  next
    case False
    then have "deliver nd (handle nd p e) es = handle nd p e"
      by (rule deliver_settled)
    then have "promise (handle nd p e) = Resolved r"
      using Cons.prems by simp
    then show ?thesis
      using handle_resolved Cons.prems(2) by blast
  qed
qed

lemma executor_request:
  assumes "promise (executor nd opts t0 t1) = Pending"
  shows "request (executor nd opts t0 t1) =
           Some (if httpVersion opts = Some ''2.0'' then HTTP2 else HTTP1)
       \<and> httpVersion (options_v (executor nd opts t0 t1)) = httpVersion opts"
  using assms
  by (auto simp: executor_def handler_defs makeHTTP2Request_def makeHTTP1Request_def
      initial_def shareHeaders_def Let_def split: sum.splits option.splits if_splits)

lemma makeSingleRequest_split:
  assumes "events env = es1 @ e # es2"
    and "promise (makeSingleRequest nd opts (env\<lparr>events := es1\<rparr>)) = Pending"
  shows "makeSingleRequest nd opts env =
           deliver nd (handle nd (makeSingleRequest nd opts (env\<lparr>events := es1\<rparr>)) e) es2"
  using assms by (simp add: makeSingleRequest_def deliver_append)

lemma makeSingleRequest_pending:
  assumes "promise (makeSingleRequest nd opts env) = Pending"
  shows "request (makeSingleRequest nd opts env) =
           Some (if httpVersion opts = Some ''2.0'' then HTTP2 else HTTP1)
       \<and> httpVersion (options_v (makeSingleRequest nd opts env)) = httpVersion opts"
proof -
  have "promise (executor nd opts (hrtime_start env) (hrtime_socket env)) = Pending"
  proof (rule ccontr)
    assume "promise (executor nd opts (hrtime_start env) (hrtime_socket env)) \<noteq> Pending"
    then show False
      using assms by (simp add: makeSingleRequest_def deliver_settled)
  qed
  then show ?thesis
    using executor_request by (simp add: makeSingleRequest_def)
qed


lemma executor_insecure:
  assumes "httpVersion opts = Some ''2.0''" and "URL nd (url opts) = Inr u"
    and "protocol u \<noteq> ''https:''"
  shows "executor nd opts t0 t1 =
           (initial opts)
             \<lparr>options_v :=
                shareHeaders
                  (setContentType opts
                     (setCredentials nd opts (case headers opts of None \<Rightarrow> [] | Some h \<Rightarrow> h)))
                  opts,
              promise :=
                Rejected
                  (Error ''HTTP/2 supports only the \"https:\" protocol.''
                     (Some ''ERR_INSECURE_SCHEME''))\<rparr>"
  using assms
  by (simp add: executor_def getParameters_def setSecurity_def parseURL_def
      url_parts.extend_def reject_def initial_def Let_def)

lemma probe_insecure:
  assumes "httpVersion opts = Some ''2.0''" and "URL nd (url opts) = Inr u"
    and "protocol u \<noteq> ''https:''"
  shows "promise (makeSingleRequest nd opts env) =
           Rejected
             (Error ''HTTP/2 supports only the \"https:\" protocol.''
                (Some ''ERR_INSECURE_SCHEME''))
       \<and> effects (makeSingleRequest nd opts env) = []
       \<and> request (makeSingleRequest nd opts env) = None"
  using executor_insecure [OF assms]
  by (simp add: makeSingleRequest_def deliver_settled initial_def)

text \<open>
  Claim C4. When the options select the protocol version 2.0 and the scheme of the parsed
  URL is not \<^verbatim>\<open>https:\<close>, the promise of the entry operation is rejected with the error
  of code \<^verbatim>\<open>ERR_INSECURE_SCHEME\<close>, whatever the request count, and the only probe that
  was started made no request object and had no effect at all: no connection, no request,
  no write.
\<close>

theorem insecure_scheme_rejected:
  assumes "httpVersion (optionsOf d) = Some ''2.0''"
    and "URL nd (url (optionsOf d)) = Inr u"
    and "protocol u \<noteq> ''https:''"
  shows "returned (nettime nd d net) =
           Rejected
             (Error ''HTTP/2 supports only the \"https:\" protocol.''
                (Some ''ERR_INSECURE_SCHEME''))
       \<and> trace (nettime nd d net) = [Probe []]
       \<and> request (makeSingleRequest nd (optionsOf d) env) = None
       \<and> effects (makeSingleRequest nd (optionsOf d) env) = []"
  using probe_insecure [OF assms]
  by (simp add: nettime_def nettime_single_def nettime_loop.simps [of _ _ _ _ 0] Let_def
      split: option.splits)

theorem insecure_scheme_rejected_witness:
  "httpVersion
     (optionsOf (Options ((example_options ''http://example.com/'')
        \<lparr>httpVersion := Some ''2.0'', requestCount := Some 3\<rparr>))) = Some ''2.0''
   \<and> URL example_node
       (url (optionsOf (Options ((example_options ''http://example.com/'')
          \<lparr>httpVersion := Some ''2.0'', requestCount := Some 3\<rparr>)))) = Inr (example_url ''http:'')
   \<and> protocol (example_url ''http:'') \<noteq> ''https:''
   \<and> trace (nettime example_node
        (Options ((example_options ''http://example.com/'')
           \<lparr>httpVersion := Some ''2.0'', requestCount := Some 3\<rparr>))
        (\<lambda>i. example_env example_events)) = [Probe []]"
proof -
  let ?d = "Options ((example_options ''http://example.com/'')
              \<lparr>httpVersion := Some ''2.0'', requestCount := Some 3\<rparr>)"
  have h1: "httpVersion (optionsOf ?d) = Some ''2.0''"
    by (simp add: optionsOf_def)
  have h2: "URL example_node (url (optionsOf ?d)) = Inr (example_url ''http:'')"
    by (simp add: example_node_def example_options_def optionsOf_def)
  have h3: "protocol (example_url ''http:'') \<noteq> ''https:''"
    by (simp add: example_url_def)
  from insecure_scheme_rejected [OF h1 h2 h3, of "\<lambda>i. example_env example_events"] h1 h2 h3
  show ?thesis
    by blast
qed

text \<open>
  Claim C10. In a probe over HTTP/2, the status message of the result is not taken from
  the server: it is the entry of the table \<^verbatim>\<open>http.STATUS_CODES\<close> under the value of the
  \<^verbatim>\<open>:status\<close> header of the last response that arrived while the probe was pending, and
  it is undefined when the table has no such entry.
\<close>

theorem http2_statusMessage:
  assumes "httpVersion opts = Some ''2.0''"
    and "events env = es1 @ ev_response2 hdrs # es2"
    and "promise (makeSingleRequest nd opts (env\<lparr>events := es1\<rparr>)) = Pending"
    and "\<forall>e\<in>set es2. \<not> is_response e"
    and "promise (makeSingleRequest nd opts env) = Resolved r"
  shows "statusMessage_o r = STATUS_CODES nd (toString (map_of hdrs '':status''))
       \<and> (STATUS_CODES nd (toString (map_of hdrs '':status'')) = None \<longrightarrow> statusMessage_o r = None)"
proof -
  let ?p = "makeSingleRequest nd opts (env\<lparr>events := es1\<rparr>)"
  let ?q = "handle nd ?p (ev_response2 hdrs)"
  have req: "request ?p = Some HTTP2"
    using makeSingleRequest_pending [OF assms(3)] assms(1) by simp
  have q: "promise ?q = Pending"
    "response_v ?q = Some \<lparr>headers_r = hdrs, httpVersion_r = httpVersion (options_v ?p),
        statusCode_r = map_of hdrs '':status'',
        statusMessage_r = STATUS_CODES nd (toString (map_of hdrs '':status''))\<rparr>"
    using req assms(3) by (simp_all add: Let_def)
  have "promise (deliver nd ?q es2) = Resolved r"
    using makeSingleRequest_split [OF assms(2,3)] assms(5) by simp
  from deliver_resolved [OF assms(4) q(1) this] q(2) show ?thesis
    by simp
qed


theorem http2_statusMessage_witness:
  "httpVersion ((example_options ''https://example.com/'')\<lparr>httpVersion := Some ''2.0''\<rparr>)
     = Some ''2.0''
   \<and> events (example_env example_events2) =
       [ev_lookup (5, 200), ev_connect (5, 300), ev_secureConnect (5, 350)]
       @ ev_response2 [('':status'', Num 299)]
       # [ev_readable (5, 400) (Some ''hello''), ev_end (5, 600), ev_close (5, 700) None]
   \<and> promise (makeSingleRequest example_node
        ((example_options ''https://example.com/'')\<lparr>httpVersion := Some ''2.0''\<rparr>)
        ((example_env example_events2)
           \<lparr>events := [ev_lookup (5, 200), ev_connect (5, 300), ev_secureConnect (5, 350)]\<rparr>))
       = Pending
   \<and> promise (makeSingleRequest example_node
        ((example_options ''https://example.com/'')\<lparr>httpVersion := Some ''2.0''\<rparr>)
        (example_env example_events2)) = Resolved example_result2
   \<and> STATUS_CODES example_node (toString (map_of [('':status'', Num 299)] '':status'')) = None
   \<and> statusMessage_o example_result2 = None"
proof -
  let ?opts = "(example_options ''https://example.com/'')\<lparr>httpVersion := Some ''2.0''\<rparr>"
  let ?es1 = "[ev_lookup (5, 200), ev_connect (5, 300), ev_secureConnect (5, 350)]"
  let ?es2 = "[ev_readable (5, 400) (Some ''hello''), ev_end (5, 600), ev_close (5, 700) None]"
  have h1: "httpVersion ?opts = Some ''2.0''"
    by simp
  have h2: "events (example_env example_events2) =
              ?es1 @ ev_response2 [('':status'', Num 299)] # ?es2"
    by (simp add: example_env_def example_events2_def)
  have h3: "promise (makeSingleRequest example_node ?opts
              ((example_env example_events2)\<lparr>events := ?es1\<rparr>)) = Pending"
    by code_simp
  have h4: "\<forall>e\<in>set ?es2. \<not> is_response e"
    by simp
  have h5: "promise (makeSingleRequest example_node ?opts (example_env example_events2))
              = Resolved example_result2"
    by code_simp
  have h6: "STATUS_CODES example_node (toString (map_of [('':status'', Num 299)] '':status''))
              = None"
    by code_simp
  from http2_statusMessage [OF h1 h2 h3 h4 h5] h1 h2 h3 h4 h5 h6 show ?thesis
    by blast
qed



lemma foldl_firstByte_kept:
  "firstByte_v p \<Longrightarrow>
     firstByte_v (foldl (handle nd) p es)
     \<and> map_of (timings_v (foldl (handle nd) p es)) firstByte = map_of (timings_v p) firstByte"
  by (induction es arbitrary: p) (simp_all add: handle_firstByte handle_firstByte_kept)

lemma foldl_frame:
  "\<forall>e\<in>set es. signal e \<noteq> Some ph \<Longrightarrow>
     map_of (timings_v (foldl (handle nd) p es)) ph = map_of (timings_v p) ph"
  by (induction es arbitrary: p) (simp_all add: handle_frame)

lemma first_readable:
  assumes "\<not> firstByte_v p" and "response_listeners p"
  shows "firstByte_v (handle nd p (ev_readable t c))
       \<and> map_of (timings_v (handle nd p (ev_readable t c))) firstByte
           = Some (getDuration (start p) t)"
  using assms
  by (auto simp: handler_defs update_conv' Let_def split: option.splits)

text \<open>
  Claim C1, as the code has it. Only \<^verbatim>\<open>firstByte\<close> is recorded once: the first readable
  signal records it and no later event changes it. The phases \<^verbatim>\<open>socketOpen\<close>,
  \<^verbatim>\<open>dnsLookup\<close>, \<^verbatim>\<open>tcpConnection\<close>, \<^verbatim>\<open>tlsHandshake\<close> and \<^verbatim>\<open>contentTransfer\<close> are
  assigned at every occurrence of their signal, whatever was recorded before, so the last
  occurrence is the one kept. No phase is changed by events that are not its own signal.
\<close>

theorem timings_recorded:
  "(\<not> firstByte_v p \<and> response_listeners p \<longrightarrow>
      map_of (timings_v (foldl (handle nd) (handle nd p (ev_readable t c)) es)) firstByte
        = Some (getDuration (start p) t))
   \<and> (request p = Some HTTP1 \<longrightarrow>
        map_of (timings_v (handle nd p (ev_socket t))) socketOpen
          = Some (getDuration (start p) t))
   \<and> (socket_listeners p \<longrightarrow>
        map_of (timings_v (handle nd p (ev_lookup t))) dnsLookup
          = Some (getDuration (start p) t)
        \<and> map_of (timings_v (handle nd p (ev_connect t))) tcpConnection
          = Some (getDuration (start p) t)
        \<and> map_of (timings_v (handle nd p (ev_secureConnect t))) tlsHandshake
          = Some (getDuration (start p) t))
   \<and> (response_listeners p \<longrightarrow>
        map_of (timings_v (handle nd p (ev_end t))) contentTransfer
          = Some (getDuration (start p) t))
   \<and> ((\<forall>e\<in>set es. signal e \<noteq> Some ph) \<longrightarrow>
        map_of (timings_v (foldl (handle nd) p es)) ph = map_of (timings_v p) ph)"
proof (intro conjI impI)
  assume "\<not> firstByte_v p \<and> response_listeners p"
  then have "firstByte_v (handle nd p (ev_readable t c))
       \<and> map_of (timings_v (handle nd p (ev_readable t c))) firstByte
           = Some (getDuration (start p) t)"
    using first_readable by blast
  then show "map_of (timings_v (foldl (handle nd) (handle nd p (ev_readable t c)) es)) firstByte
        = Some (getDuration (start p) t)"
    using foldl_firstByte_kept by simp
next
  assume "request p = Some HTTP1"
  then show "map_of (timings_v (handle nd p (ev_socket t))) socketOpen
          = Some (getDuration (start p) t)"
    by (simp add: handler_defs update_conv')
next
  assume "socket_listeners p"
  then show "map_of (timings_v (handle nd p (ev_lookup t))) dnsLookup
          = Some (getDuration (start p) t)"
    and "map_of (timings_v (handle nd p (ev_connect t))) tcpConnection
          = Some (getDuration (start p) t)"
    and "map_of (timings_v (handle nd p (ev_secureConnect t))) tlsHandshake
          = Some (getDuration (start p) t)"
    by (simp_all add: handler_defs update_conv')
next
  assume "response_listeners p"
  then show "map_of (timings_v (handle nd p (ev_end t))) contentTransfer
          = Some (getDuration (start p) t)"
    by (simp add: handler_defs update_conv' Let_def)
next
  assume "\<forall>e\<in>set es. signal e \<noteq> Some ph"
  then show "map_of (timings_v (foldl (handle nd) p es)) ph = map_of (timings_v p) ph"
    by (rule foldl_frame)
qed

theorem timings_recorded_witness:
  "\<not> firstByte_v example_probe \<and> response_listeners example_probe
   \<and> request example_probe = Some HTTP1 \<and> socket_listeners example_probe
   \<and> map_of (timings_v (foldl (handle example_node)
        (handle example_node example_probe (ev_readable (5, 400) (Some ''hello'')))
        [ev_readable (5, 500) None, ev_end (5, 600)])) firstByte = Some (0, 400)
   \<and> map_of (timings_v example_probe) dnsLookup = Some (0, 200)
   \<and> map_of (timings_v (handle example_node example_probe (ev_lookup (5, 900)))) dnsLookup
       = Some (0, 900)
   \<and> map_of (timings_v (foldl (handle example_node) example_probe
        [ev_readable (5, 500) None, ev_end (5, 600)])) dnsLookup = Some (0, 200)"
proof -
  have h1: "\<not> firstByte_v example_probe \<and> response_listeners example_probe"
    by code_simp
  have h2: "request example_probe = Some HTTP1"
    by code_simp
  have h3: "socket_listeners example_probe"
    by code_simp
  have h4: "\<forall>e\<in>set [ev_readable (5, 500) None, ev_end (5, 600)]. signal e \<noteq> Some dnsLookup"
    by simp
  have s: "start example_probe = (5, 0)"
    by code_simp
  have d: "getDuration (5, 0) (5, 400) = (0, 400)" "getDuration (5, 0) (5, 900) = (0, 900)"
    by (simp_all add: getDuration_def)
  have l: "map_of (timings_v example_probe) dnsLookup = Some (0, 200)"
    by code_simp
  from timings_recorded [where p = example_probe and nd = example_node and t = "(5, 900)"
      and es = "[ev_readable (5, 500) None, ev_end (5, 600)]" and ph = dnsLookup]
    timings_recorded [where p = example_probe and nd = example_node and t = "(5, 400)"
      and c = "Some ''hello''" and es = "[ev_readable (5, 500) None, ev_end (5, 600)]"]
    h1 h2 h3 h4 s d l
  show ?thesis
    by simp
qed

text \<open>
  Claim C1 as stated fails: a second \<^verbatim>\<open>lookup\<close> signal replaces the timing that the
  first one recorded for \<^verbatim>\<open>dnsLookup\<close>.
\<close>

theorem first_lookup_not_kept:
  "map_of (timings_v (makeSingleRequest example_node (example_options ''http://example.com/'')
      (example_env [ev_socket (5, 100), ev_lookup (5, 200)]))) dnsLookup = Some (0, 200)
   \<and> map_of (timings_v (makeSingleRequest example_node (example_options ''http://example.com/'')
      (example_env [ev_socket (5, 100), ev_lookup (5, 200), ev_lookup (5, 900)]))) dnsLookup
      \<noteq> Some (0, 200)"
  by code_simp

section \<open>Properties of nettime\<close>

lemma write_flags_append: "write_flags (xs @ ys) = write_flags xs @ write_flags ys"
  by (induction xs rule: write_flags.induct) simp_all

lemma handle_write_flags:
  assumes "appendToOutput (options_v p)" and "set (write_flags (effects p)) \<subseteq> {''a''}"
  shows "set (write_flags (effects (handle nd p e))) \<subseteq> {''a''}"
  using assms
  by (cases e)
    (auto simp: handler_defs Let_def write_flags_append split: option.splits prod.splits)


lemma foldl_write_flags:
  assumes "appendToOutput (options_v p)" and "set (write_flags (effects p)) \<subseteq> {''a''}"
  shows "set (write_flags (effects (foldl (handle nd) p es))) \<subseteq> {''a''}"
  using assms
proof (induction es arbitrary: p)
  case Nil
  then show ?case by simp
next
  case (Cons e es)
  have "appendToOutput (options_v (handle nd p e))"
    using Cons.prems(1) by simp
  moreover have "set (write_flags (effects (handle nd p e))) \<subseteq> {''a''}"
    using Cons.prems by (rule handle_write_flags)
  ultimately show ?case
    using Cons.IH by simp
qed

lemma executor_appendToOutput:
  "appendToOutput (options_v (executor nd opts t0 t1)) = appendToOutput opts
   \<and> write_flags (effects (executor nd opts t0 t1)) = []"
  by (auto simp: executor_def handler_defs makeHTTP2Request_def makeHTTP1Request_def
      initial_def shareHeaders_def Let_def write_flags_append
      split: sum.splits option.splits)

lemma probe_appendToOutput [simp]:
  "appendToOutput (options_v (makeSingleRequest nd opts env)) = appendToOutput opts"
  by (simp add: makeSingleRequest_def executor_appendToOutput)









lemma waits_append: "waits (xs @ ys) = waits xs @ waits ys"
  by (induction xs rule: waits.induct) simp_all

lemma loop_done:
  "\<not> int i < count \<Longrightarrow>
     nettime_loop nd net count delay i opts results tr =
       \<lparr>returned = Resolved (Many results), options_after = opts, trace = tr\<rparr>"
  by (simp add: nettime_loop.simps [of nd net count delay i])

lemma loop_step:
  assumes "int i < count" and "promise (makeSingleRequest nd opts (net i)) = Resolved r"
  shows "nettime_loop nd net count delay i opts results tr =
           nettime_loop nd net count delay (Suc i)
             ((options_v (makeSingleRequest nd opts (net i)))\<lparr>appendToOutput := True\<rparr>)
             (results @ [r])
             ((tr @ [Probe (effects (makeSingleRequest nd opts (net i)))])
              @ (case delay of None \<Rightarrow> [] | Some ms \<Rightarrow> if ms \<noteq> 0 then [Wait ms] else []))"
  using assms by (simp add: nettime_loop.simps [of nd net count delay i] Let_def)

lemma loop_stop:
  assumes "int i < count" and "promise (makeSingleRequest nd opts (net i)) \<noteq> Resolved r"
    and "returned (nettime_loop nd net count delay i opts results tr) = Resolved v"
  shows "\<exists>r'. promise (makeSingleRequest nd opts (net i)) = Resolved r'"
  using assms
  by (cases "promise (makeSingleRequest nd opts (net i))")
    (simp_all add: nettime_loop.simps [of nd net count delay i] Let_def)

lemma loop_resolved:
  assumes "returned (nettime_loop nd net count delay i (options_at nd net opts0 i) results tr)
             = Resolved v"
  shows "\<exists>rs. v = Many (results @ rs) \<and> length rs = nat (count - int i)
           \<and> (\<forall>k<length rs. promise (probe_at nd net opts0 (i + k)) = Resolved (rs ! k))
           \<and> waits (trace (nettime_loop nd net count delay i (options_at nd net opts0 i)
                results tr))
               = waits tr
                 @ concat (replicate (nat (count - int i))
                     (None # (case delay of None \<Rightarrow> []
                              | Some ms \<Rightarrow> if ms \<noteq> 0 then [Some ms] else [])))"
  using assms
proof (induction "nat (count - int i)" arbitrary: i results tr)
  case 0
  then have "\<not> int i < count"
    by simp
  then show ?case
    using "0.prems" "0.hyps" by (simp add: loop_done)
next
  case (Suc n)
  let ?opts = "options_at nd net opts0 i"
  let ?p = "makeSingleRequest nd ?opts (net i)"
  have lt: "int i < count"
    using Suc.hyps(2) by simp
  obtain r where r: "promise ?p = Resolved r"
    using loop_stop [where net = net and i = i, OF lt _ Suc.prems] by (cases "promise ?p") auto
  let ?tr = "(tr @ [Probe (effects ?p)])
              @ (case delay of None \<Rightarrow> [] | Some ms \<Rightarrow> if ms \<noteq> 0 then [Wait ms] else [])"
  have step: "nettime_loop nd net count delay i ?opts results tr =
          nettime_loop nd net count delay (Suc i) (options_at nd net opts0 (Suc i))
            (results @ [r]) ?tr"
    using loop_step [where net = net and i = i, OF lt r] by simp
  have n: "n = nat (count - int (Suc i))"
    using Suc.hyps(2) by simp
  have "returned (nettime_loop nd net count delay (Suc i) (options_at nd net opts0 (Suc i))
            (results @ [r]) ?tr) = Resolved v"
    using Suc.prems step by simp
  from Suc.hyps(1) [OF n this]
  obtain rs where rs: "v = Many ((results @ [r]) @ rs)" "length rs = nat (count - int (Suc i))"
    "\<forall>k<length rs. promise (probe_at nd net opts0 (Suc i + k)) = Resolved (rs ! k)"
    "waits (trace (nettime_loop nd net count delay (Suc i) (options_at nd net opts0 (Suc i))
            (results @ [r]) ?tr))
       = waits ?tr @ concat (replicate (nat (count - int (Suc i)))
                     (None # (case delay of None \<Rightarrow> []
                              | Some ms \<Rightarrow> if ms \<noteq> 0 then [Some ms] else [])))"
    by blast
  have len: "length (r # rs) = nat (count - int i)"
    using rs(2) lt by simp
  have all: "\<forall>k<length (r # rs). promise (probe_at nd net opts0 (i + k)) = Resolved ((r # rs) ! k)"
  proof (intro allI impI)
    fix k assume "k < length (r # rs)"
    then show "promise (probe_at nd net opts0 (i + k)) = Resolved ((r # rs) ! k)"
      using rs(3) r by (cases k) (simp_all add: probe_at_def)
  qed
  have rep: "nat (count - int i) = Suc (nat (count - int (Suc i)))"
    using lt by simp
  have w: "waits (trace (nettime_loop nd net count delay i ?opts results tr))
       = waits tr @ concat (replicate (nat (count - int i))
                     (None # (case delay of None \<Rightarrow> []
                              | Some ms \<Rightarrow> if ms \<noteq> 0 then [Some ms] else [])))"
    unfolding step rs(4) rep
    by (simp add: waits_append split: option.splits)
  show ?case
    using rs(1) len all w by (intro exI [of _ "r # rs"]) simp
qed

lemma loop_total:
  assumes "\<forall>j. i \<le> j \<and> int j < count \<longrightarrow> (\<exists>r. promise (probe_at nd net opts0 j) = Resolved r)"
  shows "\<exists>rs. returned (nettime_loop nd net count delay i (options_at nd net opts0 i) results tr)
           = Resolved (Many rs)"
  using assms
proof (induction "nat (count - int i)" arbitrary: i results tr)
  case 0
  then have "\<not> int i < count"
    by simp
  then show ?case
    by (simp add: loop_done)
next
  case (Suc n)
  have lt: "int i < count"
    using Suc.hyps(2) by simp
  then obtain r where r: "promise (makeSingleRequest nd (options_at nd net opts0 i) (net i)) = Resolved r"
    using Suc.prems by (auto simp: probe_at_def)
  have n: "n = nat (count - int (Suc i))"
    using Suc.hyps(2) by simp
  have "\<forall>j. Suc i \<le> j \<and> int j < count \<longrightarrow> (\<exists>r. promise (probe_at nd net opts0 j) = Resolved r)"
    using Suc.prems by auto
  from Suc.hyps(1) [OF n this] show ?case
    using loop_step [where net = net and i = i, OF lt r] by simp
qed


lemma nettime_waits:
  assumes "requestCount (optionsOf d) = Some count" and "1 < count"
    and "returned (nettime nd d net) = Resolved v"
  shows "waits (trace (nettime nd d net)) =
           concat (replicate (nat count)
             (None # (case requestDelay (optionsOf d) of
                        None \<Rightarrow> []
                      | Some ms \<Rightarrow> if ms \<noteq> 0 then [Some ms] else [])))"
proof -
  have eq: "nettime nd d net =
          nettime_loop nd net count (requestDelay (optionsOf d)) 0
            (options_at nd net (optionsOf d) 0) [] []"
    using assms(1,2) by (simp add: nettime_def Let_def)
  from loop_resolved [of nd net count "requestDelay (optionsOf d)" 0 "optionsOf d" "[]" "[]" v]
  show ?thesis
    using assms(3) eq by auto
qed

text \<open>
  Claim C7. When the request count is unset or at most 1, the entry operation settles as
  the one probe does and a resolved result is returned as it is, not in a sequence. When
  the count is greater than 1 and the run resolves, the value is a sequence as long as
  the count whose element of index \<open>k\<close> is the result of the probe of index \<open>k\<close>; and the
  run does resolve when all these probes do.
\<close>

theorem nettime_returns:
  "((case requestCount (optionsOf d) of None \<Rightarrow> True | Some count \<Rightarrow> count \<le> 1) \<longrightarrow>
      returned (nettime nd d net) =
        (case promise (makeSingleRequest nd (optionsOf d) (net 0)) of
           Pending \<Rightarrow> Pending
         | Rejected e \<Rightarrow> Rejected e
         | Resolved r \<Rightarrow> Resolved (Single r)))
   \<and> (requestCount (optionsOf d) = Some count \<and> 1 < count \<longrightarrow>
        (returned (nettime nd d net) = Resolved v \<longrightarrow>
           (\<exists>rs. v = Many rs \<and> int (length rs) = count
              \<and> (\<forall>k<length rs.
                    promise (probe_at nd net (optionsOf d) k) = Resolved (rs ! k))))
        \<and> ((\<forall>j. int j < count \<longrightarrow>
                (\<exists>r. promise (probe_at nd net (optionsOf d) j) = Resolved r)) \<longrightarrow>
             (\<exists>rs. returned (nettime nd d net) = Resolved (Many rs))))"
proof (intro conjI impI)
  assume "case requestCount (optionsOf d) of None \<Rightarrow> True | Some count \<Rightarrow> count \<le> 1"
  then have "nettime nd d net = nettime_single nd (optionsOf d) net"
    by (auto simp: nettime_def Let_def split: option.splits)
  then show "returned (nettime nd d net) =
        (case promise (makeSingleRequest nd (optionsOf d) (net 0)) of
           Pending \<Rightarrow> Pending
         | Rejected e \<Rightarrow> Rejected e
         | Resolved r \<Rightarrow> Resolved (Single r))"
    by (simp add: nettime_single_def Let_def)
next
  assume c: "requestCount (optionsOf d) = Some count \<and> 1 < count"
  then have eq: "nettime nd d net =
          nettime_loop nd net count (requestDelay (optionsOf d)) 0
            (options_at nd net (optionsOf d) 0) [] []"
    by (simp add: nettime_def Let_def)
  {
    assume "returned (nettime nd d net) = Resolved v"
    then have "returned (nettime_loop nd net count (requestDelay (optionsOf d)) 0
            (options_at nd net (optionsOf d) 0) [] []) = Resolved v"
      using eq by simp
    from loop_resolved [OF this]
    obtain rs where "v = Many rs" "length rs = nat count"
      "\<forall>k<length rs. promise (probe_at nd net (optionsOf d) k) = Resolved (rs ! k)"
      by auto
    then show "\<exists>rs. v = Many rs \<and> int (length rs) = count
              \<and> (\<forall>k<length rs.
                    promise (probe_at nd net (optionsOf d) k) = Resolved (rs ! k))"
      using c by auto
  }
  {
    assume "\<forall>j. int j < count \<longrightarrow>
                (\<exists>r. promise (probe_at nd net (optionsOf d) j) = Resolved r)"
    then have "\<forall>j. 0 \<le> j \<and> int j < count \<longrightarrow>
                (\<exists>r. promise (probe_at nd net (optionsOf d) j) = Resolved r)"
      by simp
    from loop_total [OF this, of "requestDelay (optionsOf d)" "[]" "[]"]
    show "\<exists>rs. returned (nettime nd d net) = Resolved (Many rs)"
      using eq by simp
  }
qed

theorem nettime_returns_witness:
  "requestCount (optionsOf (UrlString ''http://example.com/'')) = None
   \<and> returned (nettime example_node (UrlString ''http://example.com/'')
        (\<lambda>i. example_env example_events)) = Resolved (Single example_result)
   \<and> requestCount (optionsOf (Options example_options_out)) = Some 2 \<and> (1::int) < 2
   \<and> returned (nettime example_node (Options example_options_out)
        (\<lambda>i. example_env example_events)) = Resolved (Many [example_result, example_result])
   \<and> promise (probe_at example_node (\<lambda>i. example_env example_events)
        (optionsOf (Options example_options_out)) 0) = Resolved example_result
   \<and> promise (probe_at example_node (\<lambda>i. example_env example_events)
        (optionsOf (Options example_options_out)) 1) = Resolved example_result"
proof -
  let ?net = "\<lambda>i::nat. example_env example_events"
  let ?d = "Options example_options_out"
  have a1: "case requestCount (optionsOf (UrlString ''http://example.com/'')) of
              None \<Rightarrow> True | Some count \<Rightarrow> count \<le> 1"
    by (simp add: optionsOf_def)
  have a2: "promise (makeSingleRequest example_node (optionsOf (UrlString ''http://example.com/''))
              (?net 0)) = Resolved example_result"
    by code_simp
  have a3: "requestCount (optionsOf (UrlString ''http://example.com/'')) = None"
    by (simp add: optionsOf_def)
  have b1: "requestCount (optionsOf ?d) = Some 2 \<and> (1::int) < 2"
    by (simp add: optionsOf_def example_options_out_def)
  have b2: "returned (nettime example_node ?d ?net)
              = Resolved (Many [example_result, example_result])"
    by code_simp
  have p0: "promise (probe_at example_node ?net (optionsOf ?d) 0) = Resolved example_result"
    by code_simp
  have p1: "promise (probe_at example_node ?net (optionsOf ?d) 1) = Resolved example_result"
    by code_simp
  have b3: "\<forall>j. int j < 2 \<longrightarrow>
              (\<exists>r. promise (probe_at example_node ?net (optionsOf ?d) j) = Resolved r)"
  proof (intro allI impI)
    fix j :: nat
    assume "int j < 2"
    then have "j = 0 \<or> j = 1"
      by auto
    then show "\<exists>r. promise (probe_at example_node ?net (optionsOf ?d) j) = Resolved r"
      using p0 p1 by auto
  qed
  have single: "returned (nettime example_node (UrlString ''http://example.com/'') ?net)
                  = Resolved (Single example_result)"
    using nettime_returns [of "UrlString ''http://example.com/''" example_node ?net] a1 a2
    by simp
  have many: "\<exists>rs. returned (nettime example_node ?d ?net) = Resolved (Many rs)"
    using nettime_returns [of ?d example_node ?net 2] b1 b3 by blast
  have "\<exists>rs. Many [example_result, example_result] = Many rs \<and> int (length rs) = 2
          \<and> (\<forall>k<length rs. promise (probe_at example_node ?net (optionsOf ?d) k)
                = Resolved (rs ! k))"
    using nettime_returns [of ?d example_node ?net 2 "Many [example_result, example_result]"]
      b1 b2 by blast
  then show ?thesis
    using a3 single b1 b2 p0 p1 by simp
qed

text \<open>
  Claim C2, at an input where the code departs from it. With two requests and a delay
  of 50 milliseconds the run waits after each probe, the last one too, before it
  resolves; with no delay given, the run does not wait at all between the probes.
\<close>

theorem nettime_waits_after_last_probe:
  "returned (nettime example_node
      (Options ((example_options ''http://example.com/'')
         \<lparr>requestCount := Some 2, requestDelay := Some 50\<rparr>))
      (\<lambda>i. example_env example_events)) = Resolved (Many [example_result, example_result])
   \<and> waits (trace (nettime example_node
      (Options ((example_options ''http://example.com/'')
         \<lparr>requestCount := Some 2, requestDelay := Some 50\<rparr>))
      (\<lambda>i. example_env example_events))) = [None, Some 50, None, Some 50]
   \<and> requestDelay ((example_options ''http://example.com/'')\<lparr>requestCount := Some 2\<rparr>) = None
   \<and> waits (trace (nettime example_node
      (Options ((example_options ''http://example.com/'')\<lparr>requestCount := Some 2\<rparr>))
      (\<lambda>i. example_env example_events))) = [None, None]"
  by code_simp

section \<open>Properties of the averages\<close>

lemma from_to_Nanoseconds:
  "0 \<le> snd d \<Longrightarrow> snd d < 1000000000 \<Longrightarrow> fromNanoseconds (toNanoseconds d) = d"
  by (cases d) (simp add: fromNanoseconds_def toNanoseconds_def)

lemma to_from_Nanoseconds:
  "toNanoseconds (fromNanoseconds n) = n
   \<and> 0 \<le> snd (fromNanoseconds n) \<and> snd (fromNanoseconds n) < 1000000000"
  by (simp add: fromNanoseconds_def toNanoseconds_def)

lemma phaseNames_set:
  "p \<in> set (phaseNames runs) \<longleftrightarrow> (\<exists>run\<in>set runs. map_of run p \<noteq> None)"
  by (auto simp: phaseNames_def map_of_eq_None_iff)

lemma map_of_computeAverageDurations:
  "map_of (computeAverageDurations runs) p =
     (if \<exists>run\<in>set runs. map_of run p \<noteq> None
      then Some (meanDuration (durationsOf p runs)) else None)"
proof -
  have "map_of (map (\<lambda>p. (p, meanDuration (durationsOf p runs))) ks) p =
          (if p \<in> set ks then Some (meanDuration (durationsOf p runs)) else None)" for ks
    by (induction ks) auto
  then show ?thesis
    by (simp only: computeAverageDurations_def phaseNames_set)
qed

lemma durationsOf_sum:
  "sum_list (map toNanoseconds (durationsOf p runs)) =
     (\<Sum>run\<leftarrow>runs. case map_of run p of None \<Rightarrow> 0 | Some d \<Rightarrow> toNanoseconds d)"
  by (induction runs) (auto simp: durationsOf_def List.map_filter_simps split: option.splits)

lemma durationsOf_length:
  "length (durationsOf p runs) = length (filter (\<lambda>run. map_of run p \<noteq> None) runs)"
  by (induction runs) (auto simp: durationsOf_def List.map_filter_simps split: option.splits)

lemma durationsOf_replicate:
  "durationsOf p (replicate n m) = (case map_of m p of None \<Rightarrow> [] | Some d \<Rightarrow> replicate n d)"
  by (induction n) (auto simp: durationsOf_def List.map_filter_simps split: option.splits)

lemma meanDuration_replicate:
  assumes "0 < n" and "0 \<le> snd d" and "snd d < 1000000000"
  shows "meanDuration (replicate n d) = d"
proof -
  have "sum_list (map toNanoseconds (replicate n d)) = int n * toNanoseconds d"
    by (induction n) (simp_all add: algebra_simps)
  then have "sum_list (map toNanoseconds (replicate n d)) div int (length (replicate n d))
               = toNanoseconds d"
    using assms(1) by simp
  then show ?thesis
    using assms(2,3) by (simp add: meanDuration_def from_to_Nanoseconds)
qed

text \<open>
  Claim C6. For a phase that no run holds the average holds nothing. For a phase that
  some run holds, the average is the duration, in the format of \<^verbatim>\<open>process.hrtime\<close>,
  whose nanoseconds are the sum over the runs that hold the phase divided by the number
  of those runs, rounded down: runs without the phase count neither in the sum (they add
  nothing) nor in the divisor. Averaging one or more copies of the same run, with
  nanoseconds in range, gives back the durations of that run.
\<close>

theorem computeAverageDurations_mean:
  "((\<forall>run\<in>set runs. map_of run p = None) \<longrightarrow> map_of (computeAverageDurations runs) p = None)
   \<and> ((\<exists>run\<in>set runs. map_of run p \<noteq> None) \<longrightarrow>
        (\<exists>d. map_of (computeAverageDurations runs) p = Some d
           \<and> 0 \<le> snd d \<and> snd d < 1000000000
           \<and> toNanoseconds d =
               \<lfloor>(of_int (\<Sum>run\<leftarrow>runs. case map_of run p of None \<Rightarrow> 0
                                          | Some d \<Rightarrow> toNanoseconds d) :: rat)
                / of_nat (length (filter (\<lambda>run. map_of run p \<noteq> None) runs))\<rfloor>))
   \<and> (0 < n \<and> (\<forall>x\<in>set m. 0 \<le> snd (snd x) \<and> snd (snd x) < 1000000000) \<longrightarrow>
        map_of (computeAverageDurations (replicate n m)) = map_of m)"
proof (intro conjI impI)
  assume "\<forall>run\<in>set runs. map_of run p = None"
  then show "map_of (computeAverageDurations runs) p = None"
    by (simp add: map_of_computeAverageDurations)
next
  assume ex: "\<exists>run\<in>set runs. map_of run p \<noteq> None"
  let ?total = "\<Sum>run\<leftarrow>runs. case map_of run p of None \<Rightarrow> 0 | Some d \<Rightarrow> toNanoseconds d"
  let ?count = "length (filter (\<lambda>run. map_of run p \<noteq> None) runs)"
  let ?d = "meanDuration (durationsOf p runs)"
  have d: "?d = fromNanoseconds (?total div int ?count)"
    by (simp add: meanDuration_def durationsOf_sum durationsOf_length)
  have "\<lfloor>(of_int ?total :: rat) / of_nat ?count\<rfloor> = ?total div int ?count"
    using floor_divide_of_int_eq [of ?total "int ?count", where ?'a = rat] by simp
  then have "toNanoseconds ?d = \<lfloor>(of_int ?total :: rat) / of_nat ?count\<rfloor>"
    using d to_from_Nanoseconds by simp
  moreover have "0 \<le> snd ?d \<and> snd ?d < 1000000000"
    using d to_from_Nanoseconds by simp
  moreover have "map_of (computeAverageDurations runs) p = Some ?d"
    using ex by (simp add: map_of_computeAverageDurations)
  ultimately show "\<exists>d. map_of (computeAverageDurations runs) p = Some d
           \<and> 0 \<le> snd d \<and> snd d < 1000000000
           \<and> toNanoseconds d = \<lfloor>(of_int ?total :: rat) / of_nat ?count\<rfloor>"
    by blast
next
  assume a: "0 < n \<and> (\<forall>x\<in>set m. 0 \<le> snd (snd x) \<and> snd (snd x) < 1000000000)"
  show "map_of (computeAverageDurations (replicate n m)) = map_of m"
  proof
    fix q
    show "map_of (computeAverageDurations (replicate n m)) q = map_of m q"
    proof (cases "map_of m q")
      case None
      then show ?thesis
        by (simp add: map_of_computeAverageDurations)
    next
      case (Some d)
      then have "(q, d) \<in> set m"
        by (rule map_of_SomeD)
      then have "0 \<le> snd d \<and> snd d < 1000000000"
        using a by fastforce
      then have "meanDuration (replicate n d) = d"
        using a meanDuration_replicate by blast
      then show ?thesis
        using Some a by (simp add: map_of_computeAverageDurations durationsOf_replicate)
    qed
  qed
qed

theorem computeAverageDurations_mean_witness:
  "map_of [(socketOpen, (0, 3))] dnsLookup = None \<and> map_of [] dnsLookup = None
   \<and> map_of (computeAverageDurations [[(socketOpen, (0, 3))], []]) dnsLookup = None
   \<and> map_of [(dnsLookup, (0, 10000000))] dnsLookup \<noteq> None
   \<and> map_of (computeAverageDurations [[(dnsLookup, (0, 10000000))], []]) dnsLookup
       = Some (0, 10000000)
   \<and> map_of (computeAverageDurations
        (replicate 3 [(socketOpen, (0, 3)), (dnsLookup, (1, 999999999))]))
       = map_of [(socketOpen, (0, 3)), (dnsLookup, (1, 999999999))]"
proof -
  let ?m = "[(socketOpen, (0, 3)), (dnsLookup, (1::int, 999999999::int))]"
  have h1: "\<forall>run\<in>set [[(socketOpen, (0::int, 3::int))], []]. map_of run dnsLookup = None"
    by simp
  have h2: "\<exists>run\<in>set [[(dnsLookup, (0::int, 10000000::int))], []]. map_of run dnsLookup \<noteq> None"
    by simp
  have h3: "0 < (3::nat) \<and> (\<forall>x\<in>set ?m. 0 \<le> snd (snd x) \<and> snd (snd x) < 1000000000)"
    by simp
  have e: "map_of (computeAverageDurations [[(dnsLookup, (0, 10000000))], []]) dnsLookup
       = Some (0, 10000000)"
    by code_simp
  from computeAverageDurations_mean [of "[[(socketOpen, (0, 3))], []]" dnsLookup] h1
  have c1: "map_of (computeAverageDurations [[(socketOpen, (0, 3))], []]) dnsLookup = None"
    by blast
  from computeAverageDurations_mean [of _ _ 3 ?m] h3
  have c3: "map_of (computeAverageDurations (replicate 3 ?m)) = map_of ?m"
    by blast
  from computeAverageDurations_mean [of "[[(dnsLookup, (0, 10000000))], []]" dnsLookup] h2
  obtain d where "map_of (computeAverageDurations [[(dnsLookup, (0, 10000000))], []]) dnsLookup
       = Some d"
    by blast
  then show ?thesis
    using c1 c3 e by simp
qed

lemma checkStatusCodes_first:
  assumes "first \<noteq> None"
  shows "checkStatusCodes first rs =
           (case find (\<lambda>r. statusCode_o r \<noteq> first) rs of
              None \<Rightarrow> None
            | Some r \<Rightarrow> Some (Error (statusCodeMessage first (statusCode_o r)) None))"
  using assms by (induction rs) auto

lemma computeAverageTimings_first:
  assumes "statusCode_o r0 \<noteq> None"
  shows "computeAverageTimings (r0 # rs) =
           (case find (\<lambda>r. statusCode_o r \<noteq> statusCode_o r0) rs of
              None \<Rightarrow>
                Inr (createAverageResult r0 (computeAverageDurations (map timings (r0 # rs))))
            | Some r \<Rightarrow>
                Inl (Error (statusCodeMessage (statusCode_o r0) (statusCode_o r)) None))"
  using assms
  by (simp add: computeAverageTimings_def checkStatusCodes_first split: option.splits)

lemma computeAverageTimings_cases:
  assumes "statusCode_o r0 \<noteq> None"
  shows "((\<exists>a\<in>set (r0 # rs). \<exists>b\<in>set (r0 # rs). statusCode_o a \<noteq> statusCode_o b) \<longrightarrow>
           (\<exists>r. find (\<lambda>r. statusCode_o r \<noteq> statusCode_o r0) rs = Some r
              \<and> computeAverageTimings (r0 # rs) =
                  Inl (Error (statusCodeMessage (statusCode_o r0) (statusCode_o r)) None)))
       \<and> ((\<forall>a\<in>set (r0 # rs). \<forall>b\<in>set (r0 # rs). statusCode_o a = statusCode_o b) \<longrightarrow>
           computeAverageTimings (r0 # rs) =
             Inr \<lparr>timings =
                    createTimingsFromDurations
                      (computeAverageDurations (map timings (r0 # rs))) (0, 0),
                  httpVersion_o = httpVersion_o r0,
                  statusCode_o = statusCode_o r0,
                  statusMessage_o = statusMessage_o r0,
                  headers_o = None,
                  response_o = None\<rparr>)"
proof (intro conjI impI)
  assume differ: "\<exists>a\<in>set (r0 # rs). \<exists>b\<in>set (r0 # rs). statusCode_o a \<noteq> statusCode_o b"
  have "find (\<lambda>r. statusCode_o r \<noteq> statusCode_o r0) rs \<noteq> None"
  proof
    assume "find (\<lambda>r. statusCode_o r \<noteq> statusCode_o r0) rs = None"
    then have "\<forall>r\<in>set rs. statusCode_o r = statusCode_o r0"
      unfolding find_None_iff by blast
    then have "\<forall>r\<in>set (r0 # rs). statusCode_o r = statusCode_o r0"
      by simp
    with differ show False
      by fastforce
  qed
  then obtain r where "find (\<lambda>r. statusCode_o r \<noteq> statusCode_o r0) rs = Some r"
    by blast
  then show "\<exists>r. find (\<lambda>r. statusCode_o r \<noteq> statusCode_o r0) rs = Some r
              \<and> computeAverageTimings (r0 # rs) =
                  Inl (Error (statusCodeMessage (statusCode_o r0) (statusCode_o r)) None)"
    using computeAverageTimings_first [OF assms, of rs] by simp
next
  assume equal: "\<forall>a\<in>set (r0 # rs). \<forall>b\<in>set (r0 # rs). statusCode_o a = statusCode_o b"
  have "statusCode_o r = statusCode_o r0" if "r \<in> set rs" for r
  proof -
    from that have "r \<in> set (r0 # rs)" and "r0 \<in> set (r0 # rs)"
      by simp_all
    with equal show ?thesis
      by blast
  qed
  then have "find (\<lambda>r. statusCode_o r \<noteq> statusCode_o r0) rs = None"
    unfolding find_None_iff by blast
  then show "computeAverageTimings (r0 # rs) =
             Inr \<lparr>timings =
                    createTimingsFromDurations
                      (computeAverageDurations (map timings (r0 # rs))) (0, 0),
                  httpVersion_o = httpVersion_o r0,
                  statusCode_o = statusCode_o r0,
                  statusMessage_o = statusMessage_o r0,
                  headers_o = None,
                  response_o = None\<rparr>"
    using computeAverageTimings_first [OF assms, of rs] by (simp add: createAverageResult_def)
qed

text \<open>
  When the first Result carries a status code, the check does what its message says: if
  two Results carry different status codes, \<^verbatim>\<open>computeAverageTimings\<close> throws an error
  whose message names the status code of the first Result and that of the first later
  Result that differs from it; if all status codes are equal, it returns one Result with
  the averaged timings, the \<^verbatim>\<open>httpVersion\<close>, \<^verbatim>\<open>statusCode\<close> and \<^verbatim>\<open>statusMessage\<close> of the
  first Result, and nothing else.
\<close>

theorem computeAverageTimings_consistent:
  assumes "statusCode_o r0 \<noteq> None"
  shows "((\<exists>a\<in>set (r0 # rs). \<exists>b\<in>set (r0 # rs). statusCode_o a \<noteq> statusCode_o b) \<longrightarrow>
           (\<exists>r. find (\<lambda>r. statusCode_o r \<noteq> statusCode_o r0) rs = Some r
              \<and> computeAverageTimings (r0 # rs) =
                  Inl (Error (''Status code of the first request was ''
                              @ toString (statusCode_o r0) @ '', but ''
                              @ toString (statusCode_o r) @ '' was received later.'') None)))
       \<and> ((\<forall>a\<in>set (r0 # rs). \<forall>b\<in>set (r0 # rs). statusCode_o a = statusCode_o b) \<longrightarrow>
           computeAverageTimings (r0 # rs) =
             Inr \<lparr>timings =
                    createTimingsFromDurations
                      (computeAverageDurations (map timings (r0 # rs))) (0, 0),
                  httpVersion_o = httpVersion_o r0,
                  statusCode_o = statusCode_o r0,
                  statusMessage_o = statusMessage_o r0,
                  headers_o = None,
                  response_o = None\<rparr>)"
  using computeAverageTimings_cases [OF assms, of rs]
  unfolding statusCodeMessage_def .

theorem computeAverageTimings_consistent_witness:
  "statusCode_o example_result = Some (Num 200)
   \<and> statusCode_o example_result404 = Some (Num 404)
   \<and> computeAverageTimings [example_result, example_result, example_result404] =
       Inl (Error ''Status code of the first request was 200, but 404 was received later.'' None)
   \<and> computeAverageTimings [example_result, example_result] =
       Inr (example_result\<lparr>timings := createTimingsFromDurations
              (computeAverageDurations [timings example_result, timings example_result]) (0, 0)\<rparr>)"
proof -
  have h: "statusCode_o example_result \<noteq> None"
    by (simp add: example_result_def)
  have s: "statusCode_o example_result = Some (Num 200)"
    "statusCode_o example_result404 = Some (Num 404)"
    by (simp_all add: example_result_def example_result404_def)
  have d: "\<exists>a\<in>set (example_result # [example_result, example_result404]).
             \<exists>b\<in>set (example_result # [example_result, example_result404]).
               statusCode_o a \<noteq> statusCode_o b"
    by (rule bexI [of _ example_result], rule bexI [of _ example_result404])
      (simp_all add: s)
  have e: "\<forall>a\<in>set (example_result # [example_result]).
             \<forall>b\<in>set (example_result # [example_result]). statusCode_o a = statusCode_o b"
    by simp
  note differ = computeAverageTimings_consistent
    [OF h, of "[example_result, example_result404]", THEN conjunct1, THEN mp, OF d]
  note equal = computeAverageTimings_consistent
    [OF h, of "[example_result]", THEN conjunct2, THEN mp, OF e]
  have c1: "computeAverageTimings [example_result, example_result, example_result404] =
       Inl (Error ''Status code of the first request was 200, but 404 was received later.'' None)"
    by code_simp
  have c2: "computeAverageTimings [example_result, example_result] =
       Inr (example_result\<lparr>timings := createTimingsFromDurations
              (computeAverageDurations [timings example_result, timings example_result]) (0, 0)\<rparr>)"
    by code_simp
  from differ equal show ?thesis
    using s c1 c2 by simp
qed

text \<open>
  Claim C5, at an input where the code departs from it. A run of two requests whose
  first probe is closed before a response returns a Result without a status code and one
  with the status code 200. \<^verbatim>\<open>checkStatusCodes\<close> takes an undefined first status code for
  ``no first status code yet'': it lets these two different Results pass, and the average
  is returned with the undefined status of the first one. With a third Result of status
  code 404 the error names 200 as the status code of the first request, which had none.
\<close>

theorem computeAverageTimings_skips_missing_status:
  "returned (nettime example_node
      (Options ((example_options ''http://example.com/'')\<lparr>requestCount := Some 2\<rparr>))
      example_net_closed) = Resolved (Many [example_result_closed, example_result])
   \<and> statusCode_o example_result_closed = None
   \<and> statusCode_o example_result = Some (Num 200)
   \<and> statusCode_o example_result404 = Some (Num 404)
   \<and> computeAverageTimings [example_result_closed, example_result] =
       Inr \<lparr>timings =
              [(socketOpen, 0, 100), (socketClose, 0, 700), (dnsLookup, 0, 200),
               (tcpConnection, 0, 300), (firstByte, 0, 400), (contentTransfer, 0, 600)],
            httpVersion_o = None, statusCode_o = None, statusMessage_o = None,
            headers_o = None, response_o = None\<rparr>
   \<and> computeAverageTimings [example_result_closed, example_result, example_result404] =
       Inl (Error ''Status code of the first request was 200, but 404 was received later.'' None)"
  by code_simp

end
